theory Spec2Isabelle
  imports Complex_Main "HOL-Library.Word" "HOL-Library.AList"
begin

section \<open>Fingerprint: \<open>ManifestManager.calculate_file_hash\<close>\<close>

text \<open>
  Bytes are 8-bit words. A file opened with \<open>open(file_path, "rb")\<close> is its content and a
  read position. \<open>hashlib.md5()\<close> is an external collaborator: the hasher object is modelled
  by the bytes it has been fed so far, and \<open>hexdigest\<close> by a function \<open>md5\<close> from the fed
  bytes to the hex string, passed as a parameter.
\<close>

type_synonym byte = "8 word"

datatype error = IOError | KeyError | ValueError | TypeError | AttributeError

record file_obj =
  content :: "byte list"
  pos :: nat

definition f_read :: "nat \<Rightarrow> file_obj \<Rightarrow> byte list \<times> file_obj" where
  \<comment> \<open>\<open>f.read(n)\<close>: at most \<open>n\<close> bytes from the current position, which advances.\<close>
  "f_read n f =
     (let chunk = take n (drop (pos f) (content f))
      in (chunk, f\<lparr>pos := pos f + length chunk\<rparr>))"

definition f_seek_end :: "int \<Rightarrow> file_obj \<Rightarrow> error + file_obj" where
  \<comment> \<open>\<open>f.seek(offset, 2)\<close>: position relative to the end; a negative result raises OSError.\<close>
  "f_seek_end offset f =
     (let p = int (length (content f)) + offset
      in if p < 0 then Inl IOError else Inr (f\<lparr>pos := nat p\<rparr>))"

definition hashed_bytes :: "byte list \<Rightarrow> error + byte list" where
  \<comment> \<open>The body of the \<open>with open(...)\<close> block: the bytes passed to \<open>hasher.update\<close>, in order.\<close>
  "hashed_bytes c =
     (let f0 = \<lparr>content = c, pos = 0\<rparr>;
          (chunk1, f1) = f_read 65536 f0;
          hasher1 = [] @ chunk1
      in case f_seek_end (- int (min 65536 (length c))) f1 of
           Inl e \<Rightarrow> Inl e
         | Inr f2 \<Rightarrow>
             (let (chunk2, f3) = f_read 65536 f2;
                  hasher2 = hasher1 @ chunk2
              in Inr hasher2))"

definition calculate_file_hash ::
  "(byte list \<Rightarrow> string) \<Rightarrow> (string \<Rightarrow> byte list option) \<Rightarrow> string \<Rightarrow> string" where
  \<comment> \<open>\<open>fs file_path = None\<close>: opening or reading the file raises IOError, which yields \<open>""\<close>.\<close>
  "calculate_file_hash md5 fs file_path =
     (case fs file_path of
        None \<Rightarrow> ''''
      | Some c \<Rightarrow> (case hashed_bytes c of Inl e \<Rightarrow> '''' | Inr bs \<Rightarrow> md5 bs))"

section \<open>The manifest document\<close>

text \<open>
  \<open>ManifestManager.data\<close> is the dictionary read from and written to the JSON file. Every key
  the code reads with \<open>.get(key, default)\<close> or tests with \<open>in\<close> is an optional field. Scores
  are Python floats: a float is modelled by the real number it denotes and the comparison
  of floats is the order of the reals, while the operations that round (the product and
  the sum of floats, and \<open>round\<close>) are collaborators passed as parameters, so that
  nothing is assumed about how they round. The \<open>files\<close> value is a dictionary
  (insertion-ordered association list) in the current format and a list in the legacy one.
\<close>

record file_info =
  f_hash :: "string option"
  f_original_path :: "string option"
  f_quality :: "real option"
  f_aesthetic :: "real option"
  f_total :: "real option"
  f_rating :: "int option"
  f_processed_at :: "string option"

record legacy_scores =
  s_quality :: "real option"
  s_aesthetic :: "real option"
  s_total :: "real option"

record legacy_file =
  l_filename :: "string option"
  l_scores :: "legacy_scores option"
  l_rating :: "int option"

datatype files_field = FilesDict "(string \<times> file_info) list" | FilesList "legacy_file list"

record config_rec =
  thresholds :: "real list"
  quality_weight :: real
  aesthetic_weight :: real

record settings_rec =
  set_thresholds :: "real list option"
  set_quality_weight :: "real option"
  set_aesthetic_weight :: "real option"

record statistics_rec =
  stat_total :: "int option"

record mdata =
  version :: "string option"
  created_at :: "string option"
  updated_at :: "string option"
  config :: "config_rec option"
  status :: "string option"
  total_files :: "int option"
  processed_files :: "int option"
  files :: "files_field option"
  created :: "string option"
  settings :: "settings_rec option"
  statistics :: "statistics_rec option"

text \<open>
  The collaborators of the manager: \<open>datetime.now().isoformat()\<close> is the next reading of a
  clock (\<open>clock n\<close> is the \<open>n\<close>-th reading), \<open>md5\<close> and \<open>read_file\<close> serve the fingerprint,
  \<open>json_chunks\<close> are the pieces \<open>json.dump\<close> writes one after the other, \<open>json_load\<close> is
  \<open>json.load\<close> (\<open>None\<close> when it raises JSONDecodeError or the read raises IOError),
  \<open>fmul\<close> and \<open>fadd\<close> are the product and the sum of two floats, \<open>py_round x n\<close> is
  \<open>round(x, n)\<close>, and \<open>write_outcome\<close> tells how writing the manifest file goes: the
  \<open>open(manifest_path, "w")\<close> raises IOError, or it succeeds and \<open>json.dump\<close> or the
  closing of the file raises IOError after some chunks have reached the file, or the
  whole document is written.
\<close>

datatype write_outcome = OpenFails | WriteFails nat | WriteCompletes

record env =
  clock :: "nat \<Rightarrow> string"
  md5 :: "byte list \<Rightarrow> string"
  read_file :: "string \<Rightarrow> byte list option"
  json_chunks :: "mdata \<Rightarrow> string list"
  json_load :: "string \<Rightarrow> mdata option"
  fmul :: "real \<Rightarrow> real \<Rightarrow> real"
  fadd :: "real \<Rightarrow> real \<Rightarrow> real"
  py_round :: "real \<Rightarrow> nat \<Rightarrow> real"
  write_outcome :: write_outcome

text \<open>
  The state of a manager: its \<open>data\<close>, the content of the file at \<open>manifest_path\<close>
  (\<open>None\<close> when the file does not exist) and the number of clock readings taken so far.
\<close>

record manager =
  data :: mdata
  disk :: "string option"
  ticks :: nat

definition MANIFEST_VERSION :: string where
  "MANIFEST_VERSION = ''1.0''"

definition now :: "env \<Rightarrow> manager \<Rightarrow> string \<times> manager" where
  "now e m = (clock e (ticks m), m\<lparr>ticks := ticks m + 1\<rparr>)"

definition get_str :: "string option \<Rightarrow> string" where
  \<comment> \<open>\<open>d.get(key, "")\<close>\<close>
  "get_str v = (case v of None \<Rightarrow> [] | Some s \<Rightarrow> s)"

definition get_real :: "real option \<Rightarrow> real" where
  \<comment> \<open>\<open>d.get(key, 0)\<close> for a score\<close>
  "get_real v = (case v of None \<Rightarrow> 0 | Some x \<Rightarrow> x)"

definition get_int :: "int option \<Rightarrow> int" where
  \<comment> \<open>\<open>d.get(key, 0)\<close> for a rating or a count\<close>
  "get_int v = (case v of None \<Rightarrow> 0 | Some x \<Rightarrow> x)"

definition float_0_4 :: real where
  \<comment> \<open>the value of the float literal \<open>0.4\<close>\<close>
  "float_0_4 = 3602879701896397 / 9007199254740992"

definition float_0_6 :: real where
  \<comment> \<open>the value of the float literal \<open>0.6\<close>\<close>
  "float_0_6 = 5404319552844595 / 9007199254740992"

definition init_new_manifest :: "env \<Rightarrow> manager \<Rightarrow> manager" where
  "init_new_manifest e m =
     (let (t1, m1) = now e m;
          (t2, m2) = now e m1
      in m2\<lparr>data :=
           \<lparr>version = Some MANIFEST_VERSION,
            created_at = Some t1,
            updated_at = Some t2,
            config = Some \<lparr>thresholds = [78, 72, 66, 58],
                           quality_weight = float_0_4, aesthetic_weight = float_0_6\<rparr>,
            status = Some ''new'',
            total_files = Some 0,
            processed_files = Some 0,
            files = Some (FilesDict []),
            created = None, settings = None, statistics = None\<rparr>\<rparr>)"

subsection \<open>\<open>save\<close>\<close>

text \<open>
  \<open>open(manifest_path, "w")\<close> truncates the file at \<open>manifest_path\<close> itself (creating it when
  missing); \<open>json.dump\<close> then appends one chunk after the other to it. These are all the
  effects of \<open>save\<close> on the file system, in order; a process that is interrupted has
  performed a prefix of them.
\<close>

datatype fs_op = Truncate | Append string

fun run_op :: "fs_op \<Rightarrow> string option \<Rightarrow> string option" where
  "run_op Truncate old = Some []"
| "run_op (Append chunk) old = Some (get_str old @ chunk)"

definition run_ops :: "fs_op list \<Rightarrow> string option \<Rightarrow> string option" where
  "run_ops ops old = fold run_op ops old"

definition save_ops :: "env \<Rightarrow> mdata \<Rightarrow> fs_op list" where
  "save_ops e d = Truncate # map Append (json_chunks e d)"

definition save :: "env \<Rightarrow> manager \<Rightarrow> manager" where
  \<comment> \<open>The \<open>except IOError\<close> covers \<open>open\<close>, \<open>json.dump\<close> and the closing of the file: when
      \<open>open\<close> raises, the file is left as it was; when a later step raises, the file was
      truncated and holds the chunks written before the error. \<open>save\<close> returns normally
      in every case.\<close>
  "save e m =
     (let (t, m1) = now e m;
          d = (data m1)\<lparr>updated_at := Some t\<rparr>;
          m2 = m1\<lparr>data := d\<rparr>
      in case write_outcome e of
           OpenFails \<Rightarrow> m2
         | WriteFails k \<Rightarrow> m2\<lparr>disk := run_ops (take (Suc k) (save_ops e d)) (disk m2)\<rparr>
         | WriteCompletes \<Rightarrow> m2\<lparr>disk := run_ops (save_ops e d) (disk m2)\<rparr>)"

definition save_interrupted :: "env \<Rightarrow> nat \<Rightarrow> manager \<Rightarrow> manager" where
  \<comment> \<open>\<open>save\<close>, with no IOError, in a process that is killed after the first \<open>k\<close>
      file-system effects.\<close>
  "save_interrupted e k m =
     (let (t, m1) = now e m;
          d = (data m1)\<lparr>updated_at := Some t\<rparr>;
          m2 = m1\<lparr>data := d\<rparr>
      in m2\<lparr>disk := run_ops (take k (save_ops e d)) (disk m2)\<rparr>)"

subsection \<open>\<open>load\<close> and \<open>_migrate_old_format\<close>\<close>

definition migrated_record :: "mdata \<Rightarrow> legacy_file \<Rightarrow> file_info" where
  \<comment> \<open>The dictionary stored for one legacy entry; it has no \<open>original_path\<close> key.\<close>
  "migrated_record d file_info =
     (let scores = (case l_scores file_info of
                      None \<Rightarrow> \<lparr>s_quality = None, s_aesthetic = None, s_total = None\<rparr>
                    | Some s \<Rightarrow> s)
      in \<lparr>f_hash = Some [],
          f_original_path = None,
          f_quality = Some (get_real (s_quality scores)),
          f_aesthetic = Some (get_real (s_aesthetic scores)),
          f_total = Some (get_real (s_total scores)),
          f_rating = Some (get_int (l_rating file_info)),
          f_processed_at = Some (get_str (created d))\<rparr>)"

fun migrate_entries ::
  "mdata \<Rightarrow> legacy_file list \<Rightarrow> (string \<times> file_info) list \<Rightarrow> (string \<times> file_info) list" where
  "migrate_entries d [] new_files = new_files"
| "migrate_entries d (file_info # rest) new_files =
     (let filename = get_str (l_filename file_info)
      in if filename \<noteq> []
         then migrate_entries d rest (AList.update filename (migrated_record d file_info) new_files)
         else migrate_entries d rest new_files)"

definition migrate_data :: "mdata \<Rightarrow> legacy_file list \<Rightarrow> mdata" where
  \<comment> \<open>The body of the \<open>isinstance(files_data, list)\<close> branch, up to the call of \<open>save\<close>.\<close>
  "migrate_data d0 files_data =
     (let new_files = migrate_entries d0 files_data [];
          d1 = d0\<lparr>files := Some (FilesDict new_files),
                  processed_files := Some (int (length new_files))\<rparr>;
          d2 = (if version d1 = None then d1\<lparr>version := Some MANIFEST_VERSION\<rparr> else d1);
          d3 = (if status d2 = None then d2\<lparr>status := Some ''completed''\<rparr> else d2);
          d4 = (if created_at d3 = None
                then d3\<lparr>created_at := Some (get_str (created d3))\<rparr> else d3);
          d5 = (if updated_at d4 = None
                then d4\<lparr>updated_at := Some (get_str (created d4))\<rparr> else d4);
          d6 = (if config d5 = None
                then (let st = (case settings d5 of
                                  None \<Rightarrow> \<lparr>set_thresholds = None, set_quality_weight = None,
                                            set_aesthetic_weight = None\<rparr>
                                | Some x \<Rightarrow> x)
                      in d5\<lparr>config := Some
                           \<lparr>thresholds = (case set_thresholds st of
                                             None \<Rightarrow> [78, 72, 66, 58] | Some ts \<Rightarrow> ts),
                            quality_weight = (case set_quality_weight st of
                                                None \<Rightarrow> float_0_4 | Some w \<Rightarrow> w),
                            aesthetic_weight = (case set_aesthetic_weight st of
                                                  None \<Rightarrow> float_0_6 | Some w \<Rightarrow> w)\<rparr>\<rparr>)
                else d5);
          d7 = (if total_files d6 = None
                then (let stats = (case statistics d6 of
                                     None \<Rightarrow> \<lparr>stat_total = None\<rparr> | Some x \<Rightarrow> x)
                      in d6\<lparr>total_files := Some
                           (case stat_total stats of
                              None \<Rightarrow> int (length new_files) | Some n \<Rightarrow> n)\<rparr>)
                else d6)
      in d7)"

definition migrate_old_format :: "env \<Rightarrow> manager \<Rightarrow> manager" where
  "migrate_old_format e m =
     (case files (data m) of
        Some (FilesList files_data) \<Rightarrow> save e (m\<lparr>data := migrate_data (data m) files_data\<rparr>)
      | _ \<Rightarrow> m)"

definition load :: "env \<Rightarrow> manager \<Rightarrow> bool \<times> manager" where
  "load e m =
     (case (case disk m of None \<Rightarrow> None | Some text \<Rightarrow> json_load e text) of
        None \<Rightarrow> (False, init_new_manifest e m)
      | Some d \<Rightarrow> (True, migrate_old_format e (m\<lparr>data := d\<rparr>)))"

definition ManifestManager :: "env \<Rightarrow> string option \<Rightarrow> nat \<Rightarrow> manager" where
  \<comment> \<open>The constructor, for a directory whose manifest file has content \<open>dk\<close>, at clock reading \<open>n\<close>.\<close>
  "ManifestManager e dk n =
     (let m = \<lparr>data = \<lparr>version = None, created_at = None, updated_at = None, config = None,
                       status = None, total_files = None, processed_files = None, files = None,
                       created = None, settings = None, statistics = None\<rparr>,
               disk = dk, ticks = n\<rparr>
      in if dk \<noteq> None then snd (load e m) else init_new_manifest e m)"

subsection \<open>Status, fingerprints and results\<close>

definition get_status :: "manager \<Rightarrow> string" where
  \<comment> \<open>the property \<open>status\<close>: \<open>self.data.get("status", "new")\<close>\<close>
  "get_status m = (case status (data m) of None \<Rightarrow> ''new'' | Some s \<Rightarrow> s)"

definition is_completed :: "manager \<Rightarrow> bool" where
  "is_completed m = (get_status m = ''completed'')"

fun files_lookup :: "files_field option \<Rightarrow> string \<Rightarrow> file_info option" where
  \<comment> \<open>\<open>filename in self.data.get("files", {})\<close> and then \<open>self.data["files"][filename]\<close>;
      a string is never an element of a list of dictionaries.\<close>
  "files_lookup None filename = None"
| "files_lookup (Some (FilesDict kvs)) filename = map_of kvs filename"
| "files_lookup (Some (FilesList l)) filename = None"

definition is_file_processed :: "env \<Rightarrow> manager \<Rightarrow> string \<Rightarrow> string \<Rightarrow> bool" where
  "is_file_processed e m filename file_path =
     (case files_lookup (files (data m)) filename of
        None \<Rightarrow> False
      | Some file_info \<Rightarrow>
          (let stored_hash = get_str (f_hash file_info)
           in if stored_hash = [] then False
              else (let current_hash = calculate_file_hash (md5 e) (read_file e) file_path
                    in stored_hash = current_hash)))"

definition basename :: "string \<Rightarrow> string" where
  \<comment> \<open>\<open>os.path.basename\<close> (POSIX): what follows the last slash.\<close>
  "basename p = rev (takeWhile (\<lambda>c. c \<noteq> CHR ''/'') (rev p))"

fun get_pending_loop :: "env \<Rightarrow> manager \<Rightarrow> string list \<Rightarrow> string list \<Rightarrow> string list" where
  "get_pending_loop e m [] pending = pending"
| "get_pending_loop e m (file_path # rest) pending =
     (let filename = basename file_path
      in if \<not> is_file_processed e m filename file_path
         then get_pending_loop e m rest (pending @ [file_path])
         else get_pending_loop e m rest pending)"

definition get_pending_files :: "env \<Rightarrow> manager \<Rightarrow> string list \<Rightarrow> string list" where
  "get_pending_files e m all_files = get_pending_loop e m all_files []"

definition add_file_result ::
  "env \<Rightarrow> string \<Rightarrow> string \<Rightarrow> real \<Rightarrow> real \<Rightarrow> real \<Rightarrow> int \<Rightarrow> manager \<Rightarrow> error + manager" where
  \<comment> \<open>\<open>self.data["files"][filename] = ...\<close> raises KeyError without a \<open>files\<close> key and
      TypeError when \<open>files\<close> is a list.\<close>
  "add_file_result e filename file_path quality aesthetic total_score rating m =
     (let file_hash = calculate_file_hash (md5 e) (read_file e) file_path
      in case files (data m) of
           None \<Rightarrow> Inl KeyError
         | Some (FilesList l) \<Rightarrow> Inl TypeError
         | Some (FilesDict kvs) \<Rightarrow>
             (let (t, m1) = now e m;
                  kvs' = AList.update filename
                           \<lparr>f_hash = Some file_hash,
                            f_original_path = Some file_path,
                            f_quality = Some (py_round e quality 2),
                            f_aesthetic = Some (py_round e aesthetic 2),
                            f_total = Some (py_round e total_score 2),
                            f_rating = Some rating,
                            f_processed_at = Some t\<rparr> kvs
              in Inr (m1\<lparr>data := (data m1)\<lparr>files := Some (FilesDict kvs'),
                                             processed_files := Some (int (length kvs'))\<rparr>\<rparr>)))"

definition update_file_rating :: "env \<Rightarrow> string \<Rightarrow> int \<Rightarrow> manager \<Rightarrow> manager" where
  "update_file_rating e filename new_rating m =
     (case files (data m) of
        Some (FilesDict kvs) \<Rightarrow>
          (case map_of kvs filename of
             None \<Rightarrow> m
           | Some info \<Rightarrow>
               (let info1 = info\<lparr>f_rating := Some new_rating\<rparr>;
                    (t, m1) = now e m;
                    info2 = info1\<lparr>f_processed_at := Some t\<rparr>
                in m1\<lparr>data := (data m1)\<lparr>files :=
                               Some (FilesDict (AList.update filename info2 kvs))\<rparr>\<rparr>))
      | _ \<Rightarrow> m)"

definition set_config :: "real \<times> real \<times> real \<times> real \<Rightarrow> real \<Rightarrow> real \<Rightarrow> manager \<Rightarrow> manager" where
  "set_config ths qw aw m =
     (case ths of (t4, t3, t2, t1) \<Rightarrow>
        m\<lparr>data := (data m)\<lparr>config := Some \<lparr>thresholds = [t4, t3, t2, t1],
                                            quality_weight = qw, aesthetic_weight = aw\<rparr>\<rparr>\<rparr>)"

subsection \<open>\<open>quick_rerate\<close>\<close>

record scores =
  quality :: real
  aesthetic :: real
  total_score :: real
  rating :: int

definition cached_scores :: "file_info \<Rightarrow> scores" where
  "cached_scores info =
     \<lparr>quality = get_real (f_quality info), aesthetic = get_real (f_aesthetic info),
      total_score = get_real (f_total info), rating = get_int (f_rating info)\<rparr>"

definition get_all_cached_scores :: "manager \<Rightarrow> error + (string \<times> scores) list" where
  \<comment> \<open>\<open>self.data.get("files", {}).items()\<close>: a list has no \<open>items\<close>.\<close>
  "get_all_cached_scores m =
     (case files (data m) of
        None \<Rightarrow> Inr []
      | Some (FilesList l) \<Rightarrow> Inl AttributeError
      | Some (FilesDict kvs) \<Rightarrow> Inr (map (\<lambda>(filename, info). (filename, cached_scores info)) kvs))"

definition new_rating_of :: "real \<Rightarrow> real \<times> real \<times> real \<times> real \<Rightarrow> int" where
  \<comment> \<open>the \<open>if total >= t4 ... elif ... else\<close> chain of \<open>quick_rerate\<close>\<close>
  "new_rating_of tot ths =
     (case ths of (t4, t3, t2, t1) \<Rightarrow>
        if tot \<ge> t4 then 4
        else if tot \<ge> t3 then 3
        else if tot \<ge> t2 then 2
        else if tot \<ge> t1 then 1
        else 0)"

record rerate_entry =
  r_filename :: string
  r_old_rating :: int
  r_new_rating :: int
  r_total :: real
  r_changed :: bool

fun rerate_loop ::
  "env \<Rightarrow> real \<times> real \<times> real \<times> real \<Rightarrow> real \<Rightarrow> real \<Rightarrow> (string \<times> scores) list \<Rightarrow>
   manager \<Rightarrow> rerate_entry list \<Rightarrow> manager \<times> rerate_entry list" where
  "rerate_loop e ths qw aw [] m results = (m, results)"
| "rerate_loop e ths qw aw ((filename, sc) # rest) m results =
     (let old_rating = rating sc;
          tot = fadd e (fmul e (quality sc) qw) (fmul e (aesthetic sc) aw);
          new_rating = new_rating_of tot ths;
          m' = update_file_rating e filename new_rating m
      in rerate_loop e ths qw aw rest m'
           (results @ [\<lparr>r_filename = filename, r_old_rating = old_rating,
                        r_new_rating = new_rating, r_total = py_round e tot 2,
                        r_changed = (old_rating \<noteq> new_rating)\<rparr>]))"

definition quick_rerate ::
  "env \<Rightarrow> string option \<Rightarrow> nat \<Rightarrow> real \<times> real \<times> real \<times> real \<Rightarrow> real \<Rightarrow> real \<Rightarrow>
   (error + rerate_entry list) \<times> manager" where
  \<comment> \<open>The result is the raised error or the returned list, next to the state the manager
      and its file are left in.\<close>
  "quick_rerate e dk n new_thresholds qw aw =
     (let manager = ManifestManager e dk n
      in if \<not> is_completed manager then (Inl ValueError, manager)
         else (case get_all_cached_scores manager of
                 Inl err \<Rightarrow> (Inl err, manager)
               | Inr items \<Rightarrow>
                   (let (m1, results) = rerate_loop e new_thresholds qw aw items manager [];
                        m2 = set_config new_thresholds qw aw m1;
                        m3 = save e m2
                    in (Inr results, m3))))"

section \<open>File relocation: \<open>ManifestManager.restore_files\<close>\<close>













section \<open>The specification's wording, and example inputs\<close>

definition stored_fingerprint :: "manager \<Rightarrow> string \<Rightarrow> string option" where
  \<comment> \<open>The fingerprint the ledger holds for a filename (\<open>None\<close>: the filename is absent);
      a record without a \<open>hash\<close> key counts as holding the empty fingerprint.\<close>
  "stored_fingerprint m filename =
     map_option (\<lambda>info. get_str (f_hash info)) (files_lookup (files (data m)) filename)"

definition pending_by_spec :: "env \<Rightarrow> manager \<Rightarrow> string \<Rightarrow> bool" where
  \<comment> \<open>The specification's words: absent from the ledger, or the fresh fingerprint differs
      from the stored one, or the stored fingerprint is empty.\<close>
  "pending_by_spec e m p =
     (stored_fingerprint m (basename p) = None
      \<or> stored_fingerprint m (basename p)
          \<noteq> Some (calculate_file_hash (md5 e) (read_file e) p)
      \<or> stored_fingerprint m (basename p) = Some [])"

definition threshold :: "real \<times> real \<times> real \<times> real \<Rightarrow> int \<Rightarrow> real" where
  \<comment> \<open>the threshold of bucket \<open>k\<close> in \<open>(t4, t3, t2, t1)\<close>\<close>
  "threshold ths k =
     (case ths of (t4, t3, t2, t1) \<Rightarrow>
        if k = 4 then t4 else if k = 3 then t3 else if k = 2 then t2 else t1)"

definition weighted_total :: "env \<Rightarrow> real \<Rightarrow> real \<Rightarrow> real \<Rightarrow> real \<Rightarrow> real" where
  \<comment> \<open>\<open>quality * qw + aesthetic * aw\<close> in floats\<close>
  "weighted_total e q a qw aw = fadd e (fmul e q qw) (fmul e a aw)"

definition rated_entry ::
  "env \<Rightarrow> real \<times> real \<times> real \<times> real \<Rightarrow> real \<Rightarrow> real \<Rightarrow> string \<times> scores \<Rightarrow> rerate_entry" where
  \<comment> \<open>the changelist entry of one cached record under the given thresholds and weights\<close>
  "rated_entry e ths qw aw item =
     (case item of (filename, sc) \<Rightarrow>
        \<lparr>r_filename = filename,
         r_old_rating = rating sc,
         r_new_rating = new_rating_of (weighted_total e (quality sc) (aesthetic sc) qw aw) ths,
         r_total = py_round e (weighted_total e (quality sc) (aesthetic sc) qw aw) 2,
         r_changed =
           (rating sc \<noteq> new_rating_of (weighted_total e (quality sc) (aesthetic sc) qw aw) ths)\<rparr>)"

definition frozen_fields ::
  "file_info \<Rightarrow> string option \<times> string option \<times> real option \<times> real option \<times> real option" where
  \<comment> \<open>the fields of a record other than \<open>rating\<close> and \<open>processed_at\<close>\<close>
  "frozen_fields info =
     (f_hash info, f_original_path info, f_quality info, f_aesthetic info, f_total info)"

definition set_rating_in ::
  "string \<Rightarrow> int \<Rightarrow> string \<Rightarrow> (string \<times> file_info) list \<Rightarrow> (string \<times> file_info) list" where
  \<comment> \<open>what \<open>update_file_rating\<close> does to the files dictionary\<close>
  "set_rating_in fn nr ts kvs =
     (case map_of kvs fn of
        None \<Rightarrow> kvs
      | Some info \<Rightarrow>
          AList.update fn (info\<lparr>f_rating := Some nr, f_processed_at := Some ts\<rparr>) kvs)"

definition recomputed_total ::
  "env \<Rightarrow> config_rec option \<Rightarrow> file_info option \<Rightarrow> real option" where
  \<comment> \<open>\<open>quality * quality_weight + aesthetic * aesthetic_weight\<close> from a stored record and
      the stored configuration\<close>
  "recomputed_total e c info =
     (case (c, info) of
        (Some cf, Some i) \<Rightarrow>
          Some (weighted_total e (get_real (f_quality i)) (get_real (f_aesthetic i))
                  (quality_weight cf) (aesthetic_weight cf))
      | _ \<Rightarrow> None)"

definition legacy_score :: "(legacy_scores \<Rightarrow> real option) \<Rightarrow> legacy_file \<Rightarrow> real" where
  \<comment> \<open>a score of a legacy entry, 0 when the entry has no scores or not that score\<close>
  "legacy_score sel f =
     (case l_scores f of
        None \<Rightarrow> 0
      | Some sc \<Rightarrow> (case sel sc of None \<Rightarrow> 0 | Some x \<Rightarrow> x))"

definition legacy_rating :: "legacy_file \<Rightarrow> int" where
  \<comment> \<open>the rating of a legacy entry, 0 when it has none\<close>
  "legacy_rating f = (case l_rating f of None \<Rightarrow> 0 | Some r \<Rightarrow> r)"

definition decimal_round :: "real \<Rightarrow> nat \<Rightarrow> real" where
  \<comment> \<open>the nearest multiple of \<open>10^-ndigits\<close>, halves to even; the examples use it for
      \<open>round\<close> on floats whose rounded value is a float again\<close>
  "decimal_round x ndigits =
     (let y = x * 10 ^ ndigits;
          f = \<lfloor>y\<rfloor>;
          d = y - of_int f;
          r = (if d < 1 / 2 then f else if 1 / 2 < d then f + 1 else if even f then f else f + 1)
      in of_int r / 10 ^ ndigits)"

definition example_md5 :: "byte list \<Rightarrow> string" where
  \<comment> \<open>a stand-in digest for examples: it reveals the number of bytes it was fed\<close>
  "example_md5 bs = CHR ''#'' # replicate (length bs) CHR ''x''"

definition example_read_file :: "string \<Rightarrow> byte list option" where
  "example_read_file p =
     (if p = ''/d/a.jpg'' then Some [1]
      else if p = ''/d/b.jpg'' then Some [7]
      else if p = ''/d/c.jpg'' then Some []
      else if p = ''/d/d.jpg'' then Some [1, 2]
      else None)"

definition example_record :: "string \<Rightarrow> file_info" where
  "example_record h =
     \<lparr>f_hash = Some h, f_original_path = Some ''/d'', f_quality = Some 80,
      f_aesthetic = Some 70, f_total = Some 75, f_rating = Some 3,
      f_processed_at = Some ''t''\<rparr>"

definition example_data :: "(string \<times> file_info) list \<Rightarrow> mdata" where
  "example_data kvs =
     \<lparr>version = Some ''1.0'', created_at = Some ''t'', updated_at = Some ''t'',
      config = Some \<lparr>thresholds = [78, 72, 66, 58], quality_weight = 1 / 2,
                     aesthetic_weight = 1 / 2\<rparr>,
      status = Some ''completed'', total_files = Some (int (length kvs)),
      processed_files = Some (int (length kvs)), files = Some (FilesDict kvs),
      created = None, settings = None, statistics = None\<rparr>"

definition example_legacy_files :: "legacy_file list" where
  "example_legacy_files =
     [\<lparr>l_filename = Some ''a.jpg'',
       l_scores = Some \<lparr>s_quality = Some 80, s_aesthetic = Some 70, s_total = Some 74\<rparr>,
       l_rating = Some 3\<rparr>,
      \<lparr>l_filename = Some ''b.jpg'', l_scores = None, l_rating = None\<rparr>,
      \<lparr>l_filename = Some ''c.jpg'',
       l_scores = Some \<lparr>s_quality = Some 50, s_aesthetic = None, s_total = None\<rparr>,
       l_rating = Some 0\<rparr>]"

definition example_legacy :: mdata where
  "example_legacy =
     \<lparr>version = None, created_at = None, updated_at = None, config = None, status = None,
      total_files = None, processed_files = None,
      files = Some (FilesList example_legacy_files),
      created = Some ''2023'', settings = None, statistics = None\<rparr>"

definition example_chunks :: "mdata \<Rightarrow> string list" where
  \<comment> \<open>a stand-in serialiser: the status and the filenames, in pieces\<close>
  "example_chunks d =
     ''{'' # get_str (status d)
       # (case files d of
            Some (FilesDict kvs) \<Rightarrow> map (\<lambda>kv. CHR '','' # fst kv) kvs
          | _ \<Rightarrow> [])
       @ [''}'']"

text \<open>
  In the examples all scores, weights and totals are floats on which the product and the
  sum are exact, so the operations of the reals stand for them.
\<close>

definition example_env :: env where
  "example_env =
     \<lparr>clock = (\<lambda>n. CHR ''t'' # replicate n CHR ''+''),
      md5 = example_md5,
      read_file = example_read_file,
      json_chunks = example_chunks,
      json_load = (\<lambda>text. if text = ''legacy'' then Some example_legacy
                           else if text = ''current''
                           then Some (example_data [(''a.jpg'', example_record ''#xx'')])
                           else if text = ''partial''
                           then Some ((example_data [(''a.jpg'', example_record ''#xx'')])
                                        \<lparr>status := Some ''in_progress''\<rparr>)
                           else None),
      fmul = (\<lambda>x y. x * y),
      fadd = (\<lambda>x y. x + y),
      py_round = decimal_round,
      write_outcome = WriteCompletes\<rparr>"

definition example_legacy_manager :: manager where
  "example_legacy_manager = \<lparr>data = example_data [], disk = Some ''legacy'', ticks = 0\<rparr>"

definition example_manager :: manager where
  "example_manager =
     \<lparr>data = example_data
        [(''a.jpg'', example_record ''#xx''),
         (''c.jpg'', example_record []),
         (''d.jpg'', example_record ''#x'')],
      disk = Some ''current'', ticks = 0\<rparr>"

definition example_upsert :: "manager \<Rightarrow> error + manager" where
  "example_upsert m = add_file_result example_env ''a.jpg'' ''/d/a.jpg'' 80 70 75 3 m"

definition example_rerate :: "(error + rerate_entry list) \<times> manager" where
  "example_rerate =
     quick_rerate example_env (Some ''current'') 0 (78, 72, 66, 58) (3 / 4) (1 / 4)"

definition example_weighted_manager :: manager where
  "example_weighted_manager =
     \<lparr>data = (example_data [])
        \<lparr>config := Some \<lparr>thresholds = [78, 72, 66, 58], quality_weight = 129 / 256,
                          aesthetic_weight = 127 / 256\<rparr>\<rparr>,
      disk = None, ticks = 0\<rparr>"

definition example_weighted_upsert :: "error + manager" where
  "example_weighted_upsert =
     add_file_result example_env ''n.jpg'' ''/d/b.jpg'' (1 / 2) 0 (129 / 512) 0
       example_weighted_manager"






section \<open>Properties of the fingerprint\<close>

lemma hashed_bytes_eq:
  "hashed_bytes c = Inr (take 65536 c @ drop (length c - 65536) c)"
proof -
  have p: "\<not> int (length c) - int (min 65536 (length c)) < 0" by simp
  have q: "nat (int (length c) - int (min 65536 (length c))) = length c - 65536"
    by (cases "65536 \<le> length c") (simp_all add: min_def nat_diff_distrib')
  show ?thesis
    using p q by (simp add: hashed_bytes_def f_read_def f_seek_end_def Let_def)
qed

lemma hashed_bytes_small:
  assumes "length c \<le> 65536"
  shows "hashed_bytes c = Inr (c @ c)"
  using assms by (simp add: hashed_bytes_eq)

lemma calculate_file_hash_readable:
  assumes "fs p = Some c"
  shows "calculate_file_hash h fs p = h (take 65536 c @ drop (length c - 65536) c)"
  using assms by (simp add: calculate_file_hash_def hashed_bytes_eq)

lemma calculate_file_hash_unreadable:
  assumes "fs p = None"
  shows "calculate_file_hash h fs p = []"
  using assms by (simp add: calculate_file_hash_def)

text \<open>
  C2, as amended. The fingerprint of a readable file is the digest of its first 64 KiB
  (or all of it, when shorter) followed by its last 64 KiB (or all of it, when shorter).
  For a file larger than 128 KiB these are two slices of 64 KiB each that do not overlap;
  a file of at most 64 KiB is fed to the hasher twice in a row.
\<close>

theorem calculate_file_hash_head_tail:
  assumes "fs p = Some c"
  shows "calculate_file_hash h fs p = h (take 65536 c @ drop (length c - 65536) c)
       \<and> (131072 < length c \<longrightarrow>
            length (take 65536 c) = 65536 \<and> length (drop (length c - 65536) c) = 65536
            \<and> 65536 < length c - 65536)
       \<and> (length c \<le> 65536 \<longrightarrow> calculate_file_hash h fs p = h (c @ c))"
proof -
  have "131072 < length c \<Longrightarrow> 65536 < length c - 65536" by linarith
  then show ?thesis
    using assms by (simp add: calculate_file_hash_readable)
qed

theorem calculate_file_hash_head_tail_witness:
  "(\<lambda>p. Some (replicate 131073 (0::byte))) ''big.raw'' = Some (replicate 131073 0)
   \<and> calculate_file_hash example_md5 (\<lambda>p. Some (replicate 131073 0)) ''big.raw''
       = example_md5 (replicate 65536 0 @ replicate 65536 0)
   \<and> (131072::nat) < length (replicate 131073 (0::byte))"
  using calculate_file_hash_head_tail
          [of "\<lambda>p. Some (replicate 131073 (0::byte))" "''big.raw''" "replicate 131073 0"
              example_md5]
  by simp

text \<open>
  C2 as stated fails for a file of one byte: the hasher is fed that byte twice, so the
  fingerprint is not the digest of the content.
\<close>

theorem calculate_file_hash_whole_counterexample:
  "length [65 :: byte] \<le> 131072
   \<and> hashed_bytes [65] = Inr [65, 65]
   \<and> hashed_bytes [65] \<noteq> Inr [65]
   \<and> calculate_file_hash example_md5 (\<lambda>p. Some [65]) ''small.jpg'' \<noteq> example_md5 [65]"
  by (simp add: hashed_bytes_eq calculate_file_hash_def example_md5_def)

section \<open>Properties of the pending computation\<close>

lemma is_file_processed_iff:
  "is_file_processed e m (basename p) p \<longleftrightarrow> \<not> pending_by_spec e m p"
  by (auto simp: is_file_processed_def pending_by_spec_def stored_fingerprint_def Let_def
           split: option.splits)

lemma get_pending_loop_filter:
  "get_pending_loop e m ps acc = acc @ filter (pending_by_spec e m) ps"
  by (induction ps arbitrary: acc) (simp_all add: Let_def is_file_processed_iff)

lemma pending_unreadable:
  assumes "read_file e p = None"
  shows "pending_by_spec e m p"
  using assms
  by (auto simp: pending_by_spec_def calculate_file_hash_unreadable)

text \<open>
  C1. The pending computation returns exactly the paths whose basename is absent from the
  ledger's files mapping, or whose fresh fingerprint differs from the stored one, or whose
  stored fingerprint is empty, in the order of the input; in particular a path whose file
  cannot be read is always returned.
\<close>

theorem get_pending_files_exact:
  "get_pending_files e m all_files = filter (pending_by_spec e m) all_files
   \<and> (\<forall>p \<in> set all_files. read_file e p = None \<longrightarrow> p \<in> set (get_pending_files e m all_files))"
  by (simp add: get_pending_files_def get_pending_loop_filter pending_unreadable)

theorem get_pending_files_exact_witness:
  "get_pending_files example_env example_manager
     [''/d/a.jpg'', ''/d/b.jpg'', ''/d/c.jpg'', ''/d/d.jpg'', ''/d/e.jpg'']
   = [''/d/b.jpg'', ''/d/c.jpg'', ''/d/d.jpg'', ''/d/e.jpg'']
   \<and> read_file example_env ''/d/e.jpg'' = None"
proof -
  let ?ps = "[''/d/a.jpg'', ''/d/b.jpg'', ''/d/c.jpg'', ''/d/d.jpg'', ''/d/e.jpg'']"
  have f: "filter (pending_by_spec example_env example_manager) ?ps
             = [''/d/b.jpg'', ''/d/c.jpg'', ''/d/d.jpg'', ''/d/e.jpg'']"
    by (simp add: pending_by_spec_def stored_fingerprint_def basename_def example_env_def
          example_manager_def example_data_def example_record_def example_read_file_def
          example_md5_def calculate_file_hash_def hashed_bytes_eq get_str_def)
  have r: "read_file example_env ''/d/e.jpg'' = None"
    by (simp add: example_env_def example_read_file_def)
  from get_pending_files_exact [of example_env example_manager ?ps] f r
  show ?thesis by simp
qed

section \<open>Properties of \<open>save\<close>, \<open>load\<close> and the migration\<close>

lemma fold_run_op_Append:
  "fold run_op (map Append cs) (Some acc) = Some (acc @ concat cs)"
  by (induction cs arbitrary: acc) (simp_all add: get_str_def)

lemma run_ops_save_ops:
  "run_ops (save_ops e d) old = Some (concat (json_chunks e d))"
  using fold_run_op_Append [of "json_chunks e d" "[]"]
  by (simp add: run_ops_def save_ops_def)

lemma data_save:
  "data (save e m) = (data m)\<lparr>updated_at := Some (clock e (ticks m))\<rparr>"
  by (cases "write_outcome e") (simp_all add: save_def now_def Let_def)

lemma take_save_ops:
  "run_ops (take k (save_ops e d)) old
     = (if k = 0 then old else Some (concat (take (k - 1) (json_chunks e d))))"
proof (cases k)
  case 0
  then show ?thesis by (simp add: run_ops_def)
next
  case (Suc j)
  then show ?thesis
    using fold_run_op_Append [of "take j (json_chunks e d)" "[]"]
    by (simp add: run_ops_def save_ops_def take_map)
qed

lemma disk_save:
  "disk (save e m) =
     (case write_outcome e of
        OpenFails \<Rightarrow> disk m
      | WriteFails k \<Rightarrow> Some (concat (take k (json_chunks e (data (save e m)))))
      | WriteCompletes \<Rightarrow> Some (concat (json_chunks e (data (save e m)))))"
  by (cases "write_outcome e")
     (simp_all add: save_def now_def run_ops_save_ops take_save_ops Let_def)

lemma ticks_save: "ticks (save e m) = ticks m + 1"
  by (cases "write_outcome e") (simp_all add: save_def now_def Let_def)

lemma files_migrate_data:
  "files (migrate_data d l) = Some (FilesDict (migrate_entries d l []))"
  by (simp add: migrate_data_def Let_def)

lemma processed_files_migrate_data:
  "processed_files (migrate_data d l) = Some (int (length (migrate_entries d l [])))"
  by (simp add: migrate_data_def Let_def)

lemma status_migrate_data:
  "status (migrate_data d l) = (if status d = None then Some ''completed'' else status d)"
  by (simp add: migrate_data_def Let_def)

lemma load_legacy:
  assumes "disk m = Some text" and "json_load e text = Some d"
    and "files d = Some (FilesList l)"
  shows "snd (load e m) = save e (m\<lparr>data := migrate_data d l\<rparr>)"
  using assms by (simp add: load_def migrate_old_format_def)

lemma map_of_migrate_entries:
  assumes "map_of (migrate_entries d l acc) k = Some info"
  shows "map_of acc k = Some info
       \<or> (\<exists>f \<in> set l. l_filename f = Some k \<and> k \<noteq> [] \<and> info = migrated_record d f)"
  using assms
proof (induction l arbitrary: acc)
  case Nil
  then show ?case by simp
next
  case (Cons f l)
  show ?case
  proof (cases "get_str (l_filename f) = []")
    case True
    with Cons.prems have "map_of (migrate_entries d l acc) k = Some info" by simp
    from Cons.IH [OF this] show ?thesis by auto
  next
    case False
    let ?n = "get_str (l_filename f)"
    from False have n: "l_filename f = Some ?n"
      by (cases "l_filename f") (simp_all add: get_str_def)
    from False Cons.prems
    have "map_of (migrate_entries d l (AList.update ?n (migrated_record d f) acc)) k = Some info"
      by (simp add: Let_def)
    from Cons.IH [OF this] show ?thesis
    proof
      assume "map_of (AList.update ?n (migrated_record d f) acc) k = Some info"
      then show ?thesis using n False
        by (cases "k = ?n") (auto simp: update_conv')
    next
      assume "\<exists>f \<in> set l. l_filename f = Some k \<and> k \<noteq> [] \<and> info = migrated_record d f"
      then show ?thesis by auto
    qed
  qed
qed

lemma distinct_migrate_entries:
  "distinct (map fst acc) \<Longrightarrow> distinct (map fst (migrate_entries d l acc))"
  by (induction l arbitrary: acc) (simp_all add: Let_def distinct_update)

lemma keys_migrate_entries:
  "fst ` set (migrate_entries d l acc)
     = fst ` set acc \<union> {n. n \<noteq> [] \<and> (\<exists>f \<in> set l. l_filename f = Some n)}"
proof (induction l arbitrary: acc)
  case Nil
  then show ?case by simp
next
  case (Cons f l)
  show ?case
  proof (cases "l_filename f")
    case None
    then show ?thesis using Cons.IH [of acc] by (auto simp: get_str_def)
  next
    case (Some n)
    then show ?thesis
      using Cons.IH [of acc] Cons.IH [of "AList.update n (migrated_record d f) acc"]
      by (auto simp: get_str_def Let_def dom_update)
  qed
qed

lemma update_fresh:
  "k \<notin> fst ` set al \<Longrightarrow> AList.update k v al = al @ [(k, v)]"
  by (induction al) auto

lemma migrate_entries_distinct_names:
  assumes "distinct (map (\<lambda>f. get_str (l_filename f)) l)"
    and "\<forall>f \<in> set l. get_str (l_filename f) \<noteq> []"
    and "\<forall>f \<in> set l. get_str (l_filename f) \<notin> fst ` set acc"
  shows "migrate_entries d l acc
           = acc @ map (\<lambda>f. (get_str (l_filename f), migrated_record d f)) l"
  using assms
proof (induction l arbitrary: acc)
  case Nil
  then show ?case by simp
next
  case (Cons f l)
  let ?n = "get_str (l_filename f)"
  have fresh: "?n \<notin> fst ` set acc" using Cons.prems(3) by simp
  have "\<forall>g \<in> set l. get_str (l_filename g)
          \<notin> fst ` set (AList.update ?n (migrated_record d f) acc)"
  proof
    fix g assume g: "g \<in> set l"
    have nin: "?n \<notin> (\<lambda>f. get_str (l_filename f)) ` set l"
      using Cons.prems(1) by simp
    have "(\<lambda>f. get_str (l_filename f)) g \<in> (\<lambda>f. get_str (l_filename f)) ` set l"
      using g by (rule imageI)
    with nin have "get_str (l_filename g) \<noteq> ?n" by metis
    moreover from Cons.prems(3) g have "get_str (l_filename g) \<notin> fst ` set acc" by simp
    ultimately show "get_str (l_filename g)
        \<notin> fst ` set (AList.update ?n (migrated_record d f) acc)"
      by (simp add: dom_update)
  qed
  with Cons.prems have
    "migrate_entries d l (AList.update ?n (migrated_record d f) acc)
       = AList.update ?n (migrated_record d f) acc
         @ map (\<lambda>f. (get_str (l_filename f), migrated_record d f)) l"
    by (intro Cons.IH) simp_all
  then show ?case using Cons.prems(2) fresh by (simp add: Let_def update_fresh)
qed

lemma files_load_legacy:
  assumes "disk m = Some text" and "json_load e text = Some d"
    and "files d = Some (FilesList l)"
  shows "files (data (snd (load e m))) = Some (FilesDict (migrate_entries d l []))"
  by (simp add: load_legacy [OF assms] data_save files_migrate_data)

lemma get_pending_loop_all:
  assumes "\<And>filename file_path. \<not> is_file_processed e m filename file_path"
  shows "get_pending_loop e m ps acc = acc @ ps"
  by (induction ps arbitrary: acc) (simp_all add: assms Let_def)

lemma migrated_record_fields:
  "migrated_record d f =
     \<lparr>f_hash = Some [], f_original_path = None,
      f_quality = Some (legacy_score s_quality f),
      f_aesthetic = Some (legacy_score s_aesthetic f),
      f_total = Some (legacy_score s_total f),
      f_rating = Some (legacy_rating f),
      f_processed_at = Some (case created d of None \<Rightarrow> [] | Some c \<Rightarrow> c)\<rparr>"
  by (simp add: migrated_record_def legacy_score_def legacy_rating_def get_real_def
        get_int_def get_str_def Let_def split: option.splits)

lemma version_migrate_data:
  "version d = None \<Longrightarrow> version (migrate_data d l) = Some ''1.0''"
  by (simp add: migrate_data_def Let_def MANIFEST_VERSION_def)

lemma created_at_migrate_data:
  "created_at d = None \<Longrightarrow>
     created_at (migrate_data d l) = Some (case created d of None \<Rightarrow> [] | Some c \<Rightarrow> c)"
  by (simp add: migrate_data_def Let_def get_str_def)

lemma config_migrate_data:
  "config d = None \<Longrightarrow> settings d = None \<Longrightarrow>
     config (migrate_data d l)
       = Some \<lparr>thresholds = [78, 72, 66, 58], quality_weight = float_0_4,
               aesthetic_weight = float_0_6\<rparr>"
  by (simp add: migrate_data_def Let_def)

lemma total_files_migrate_data:
  "total_files d = None \<Longrightarrow> statistics d = None \<Longrightarrow>
     total_files (migrate_data d l) = Some (int (length (migrate_entries d l [])))"
  by (simp add: migrate_data_def Let_def)

lemma backfill_migrate_data:
  "(version d = None \<longrightarrow> version (migrate_data d l) = Some ''1.0'')
   \<and> (created_at d = None \<longrightarrow>
        created_at (migrate_data d l) = Some (case created d of None \<Rightarrow> [] | Some c \<Rightarrow> c))
   \<and> (config d = None \<and> settings d = None \<longrightarrow>
        config (migrate_data d l)
          = Some \<lparr>thresholds = [78, 72, 66, 58], quality_weight = float_0_4,
                  aesthetic_weight = float_0_6\<rparr>)
   \<and> (total_files d = None \<and> statistics d = None \<longrightarrow>
        total_files (migrate_data d l) = Some (int (length (migrate_entries d l []))))"
  using version_migrate_data [of d l] created_at_migrate_data [of d l]
    config_migrate_data [of d l] total_files_migrate_data [of d l]
  by blast

text \<open>
  C8. Loading a legacy ledger, whose \<open>files\<close> field is a list, yields a mapping keyed by
  the (non-empty) filenames of the list. The record under a key comes from a list entry
  of that name: it holds the entry's quality, aesthetic and total (0 where the entry has
  none), its rating (0 where it has none), the empty fingerprint, no original path and
  the legacy creation time. When the filenames of the list are non-empty and distinct,
  the mapping holds exactly one such record per entry, in the order of the list, and
  \<open>processed_files\<close> is the length of the list; in general \<open>processed_files\<close> is the number
  of entries of the mapping. A missing status becomes \<open>completed\<close> and a present one is
  kept; missing version, creation time, configuration and total are filled in. The
  migrated document, with \<open>updated_at\<close> refreshed, is what \<open>save\<close> writes to the file, when
  the file can be written.
\<close>

theorem load_migrates_legacy:
  assumes "disk m = Some text" and "json_load e text = Some d"
    and "files d = Some (FilesList l)"
  shows "\<exists>kvs. files (data (snd (load e m))) = Some (FilesDict kvs)
      \<and> distinct (map fst kvs)
      \<and> set (map fst kvs) = {n. n \<noteq> [] \<and> (\<exists>f \<in> set l. l_filename f = Some n)}
      \<and> (\<forall>n info. map_of kvs n = Some info \<longrightarrow>
            (\<exists>f \<in> set l. l_filename f = Some n
               \<and> info = \<lparr>f_hash = Some [], f_original_path = None,
                          f_quality = Some (legacy_score s_quality f),
                          f_aesthetic = Some (legacy_score s_aesthetic f),
                          f_total = Some (legacy_score s_total f),
                          f_rating = Some (legacy_rating f),
                          f_processed_at =
                            Some (case created d of None \<Rightarrow> [] | Some c \<Rightarrow> c)\<rparr>))
      \<and> processed_files (data (snd (load e m))) = Some (int (length kvs))
      \<and> (distinct (map (\<lambda>f. get_str (l_filename f)) l)
           \<and> (\<forall>f \<in> set l. get_str (l_filename f) \<noteq> []) \<longrightarrow>
            length kvs = length l
            \<and> kvs = map (\<lambda>f. (get_str (l_filename f),
                          \<lparr>f_hash = Some [], f_original_path = None,
                           f_quality = Some (legacy_score s_quality f),
                           f_aesthetic = Some (legacy_score s_aesthetic f),
                           f_total = Some (legacy_score s_total f),
                           f_rating = Some (legacy_rating f),
                           f_processed_at =
                             Some (case created d of None \<Rightarrow> [] | Some c \<Rightarrow> c)\<rparr>)) l)
      \<and> (status d = None \<longrightarrow> status (data (snd (load e m))) = Some ''completed'')
      \<and> (\<forall>s. status d = Some s \<longrightarrow> status (data (snd (load e m))) = Some s)
      \<and> (version d = None \<longrightarrow> version (data (snd (load e m))) = Some ''1.0'')
      \<and> (created_at d = None \<longrightarrow>
            created_at (data (snd (load e m)))
              = Some (case created d of None \<Rightarrow> [] | Some c \<Rightarrow> c))
      \<and> (config d = None \<and> settings d = None \<longrightarrow>
            config (data (snd (load e m)))
              = Some \<lparr>thresholds = [78, 72, 66, 58], quality_weight = float_0_4,
                      aesthetic_weight = float_0_6\<rparr>)
      \<and> (total_files d = None \<and> statistics d = None \<longrightarrow>
            total_files (data (snd (load e m))) = Some (int (length kvs)))
      \<and> updated_at (data (snd (load e m))) = Some (clock e (ticks m))
      \<and> (write_outcome e = WriteCompletes \<longrightarrow>
            disk (snd (load e m)) = Some (concat (json_chunks e (data (snd (load e m))))))"
proof -
  let ?kvs = "migrate_entries d l []"
  let ?m' = "snd (load e m)"
  let ?rec = "\<lambda>f. \<lparr>f_hash = Some [], f_original_path = None,
                   f_quality = Some (legacy_score s_quality f),
                   f_aesthetic = Some (legacy_score s_aesthetic f),
                   f_total = Some (legacy_score s_total f),
                   f_rating = Some (legacy_rating f),
                   f_processed_at = Some (case created d of None \<Rightarrow> [] | Some c \<Rightarrow> c)\<rparr>"
  note ll = load_legacy [OF assms]
  note bf = backfill_migrate_data [of d l]
  have 1: "files (data ?m') = Some (FilesDict ?kvs)"
    by (rule files_load_legacy [OF assms])
  have 2: "distinct (map fst ?kvs)"
    by (rule distinct_migrate_entries) simp
  have 3: "set (map fst ?kvs) = {n. n \<noteq> [] \<and> (\<exists>f \<in> set l. l_filename f = Some n)}"
    using keys_migrate_entries [of d l "[]"] by simp
  have 4: "\<forall>n info. map_of ?kvs n = Some info \<longrightarrow>
            (\<exists>f \<in> set l. l_filename f = Some n \<and> info = ?rec f)"
  proof (intro allI impI)
    fix n info
    assume "map_of ?kvs n = Some info"
    from map_of_migrate_entries [OF this] obtain f where
      "f \<in> set l" and "l_filename f = Some n" and "info = migrated_record d f"
      by auto
    then show "\<exists>f \<in> set l. l_filename f = Some n \<and> info = ?rec f"
      by (auto simp: migrated_record_fields)
  qed
  have 5: "processed_files (data ?m') = Some (int (length ?kvs))"
    by (simp add: ll data_save processed_files_migrate_data)
  have 6: "distinct (map (\<lambda>f. get_str (l_filename f)) l)
           \<and> (\<forall>f \<in> set l. get_str (l_filename f) \<noteq> []) \<longrightarrow>
            length ?kvs = length l
            \<and> ?kvs = map (\<lambda>f. (get_str (l_filename f), ?rec f)) l"
  proof
    assume a: "distinct (map (\<lambda>f. get_str (l_filename f)) l)
           \<and> (\<forall>f \<in> set l. get_str (l_filename f) \<noteq> [])"
    then have "?kvs = [] @ map (\<lambda>f. (get_str (l_filename f), migrated_record d f)) l"
      by (intro migrate_entries_distinct_names) simp_all
    then have k: "?kvs = map (\<lambda>f. (get_str (l_filename f), ?rec f)) l"
      by (simp add: migrated_record_fields)
    then have "length ?kvs = length (map (\<lambda>f. (get_str (l_filename f), ?rec f)) l)"
      by (rule arg_cong)
    with k show "length ?kvs = length l
            \<and> ?kvs = map (\<lambda>f. (get_str (l_filename f), ?rec f)) l"
      by simp
  qed
  have 7: "status d = None \<longrightarrow> status (data ?m') = Some ''completed''"
    by (simp add: ll data_save status_migrate_data)
  have 8: "\<forall>s. status d = Some s \<longrightarrow> status (data ?m') = Some s"
    by (simp add: ll data_save status_migrate_data)
  have 9: "version d = None \<longrightarrow> version (data ?m') = Some ''1.0''"
    using bf by (simp add: ll data_save)
  have 10: "created_at d = None \<longrightarrow>
            created_at (data ?m') = Some (case created d of None \<Rightarrow> [] | Some c \<Rightarrow> c)"
    using bf by (simp add: ll data_save)
  have 11: "config d = None \<and> settings d = None \<longrightarrow>
            config (data ?m')
              = Some \<lparr>thresholds = [78, 72, 66, 58], quality_weight = float_0_4,
                      aesthetic_weight = float_0_6\<rparr>"
    using bf by (simp add: ll data_save)
  have 12: "total_files d = None \<and> statistics d = None \<longrightarrow>
            total_files (data ?m') = Some (int (length ?kvs))"
    using bf by (simp add: ll data_save)
  have 13: "updated_at (data ?m') = Some (clock e (ticks m))"
    by (simp add: ll data_save)
  have 14: "write_outcome e = WriteCompletes \<longrightarrow>
            disk ?m' = Some (concat (json_chunks e (data ?m')))"
    by (simp add: ll disk_save)
  show ?thesis
    by (intro exI [of _ ?kvs] conjI) (fact 1 2 3 4 5 6 7 8 9 10 11 12 13 14)+
qed

theorem load_migrates_legacy_witness:
  "disk example_legacy_manager = Some ''legacy''
   \<and> json_load example_env ''legacy'' = Some example_legacy
   \<and> files example_legacy = Some (FilesList example_legacy_files)
   \<and> length example_legacy_files = 3
   \<and> files (data (snd (load example_env example_legacy_manager)))
       = Some (FilesDict
           [(''a.jpg'', \<lparr>f_hash = Some [], f_original_path = None, f_quality = Some 80,
                         f_aesthetic = Some 70, f_total = Some 74, f_rating = Some 3,
                         f_processed_at = Some ''2023''\<rparr>),
            (''b.jpg'', \<lparr>f_hash = Some [], f_original_path = None, f_quality = Some 0,
                         f_aesthetic = Some 0, f_total = Some 0, f_rating = Some 0,
                         f_processed_at = Some ''2023''\<rparr>),
            (''c.jpg'', \<lparr>f_hash = Some [], f_original_path = None, f_quality = Some 50,
                         f_aesthetic = Some 0, f_total = Some 0, f_rating = Some 0,
                         f_processed_at = Some ''2023''\<rparr>)])
   \<and> processed_files (data (snd (load example_env example_legacy_manager))) = Some 3
   \<and> total_files (data (snd (load example_env example_legacy_manager))) = Some 3
   \<and> status (data (snd (load example_env example_legacy_manager))) = Some ''completed''
   \<and> disk (snd (load example_env example_legacy_manager))
       = Some ''{completed,a.jpg,b.jpg,c.jpg}''"
proof -
  let ?m' = "snd (load example_env example_legacy_manager)"
  let ?rec = "\<lambda>f. \<lparr>f_hash = Some [], f_original_path = None,
                   f_quality = Some (legacy_score s_quality f),
                   f_aesthetic = Some (legacy_score s_aesthetic f),
                   f_total = Some (legacy_score s_total f),
                   f_rating = Some (legacy_rating f),
                   f_processed_at =
                     Some (case created example_legacy of None \<Rightarrow> [] | Some c \<Rightarrow> c)\<rparr>"
  have h1: "disk example_legacy_manager = Some ''legacy''"
    by (simp add: example_legacy_manager_def)
  have h2: "json_load example_env ''legacy'' = Some example_legacy"
    by (simp add: example_env_def)
  have h3: "files example_legacy = Some (FilesList example_legacy_files)"
    by (simp add: example_legacy_def)
  have h4: "distinct (map (\<lambda>f. get_str (l_filename f)) example_legacy_files)
            \<and> (\<forall>f \<in> set example_legacy_files. get_str (l_filename f) \<noteq> [])"
    by (simp add: example_legacy_files_def get_str_def)
  have h5: "status example_legacy = None" by (simp add: example_legacy_def)
  have h6: "write_outcome example_env = WriteCompletes" by (simp add: example_env_def)
  have h7: "total_files example_legacy = None \<and> statistics example_legacy = None"
    by (simp add: example_legacy_def)
  have len: "length example_legacy_files = 3" by (simp add: example_legacy_files_def)
  from load_migrates_legacy [OF h1 h2 h3] obtain kvs where
    c: "files (data ?m') = Some (FilesDict kvs)
      \<and> distinct (map fst kvs)
      \<and> set (map fst kvs)
          = {n. n \<noteq> [] \<and> (\<exists>f \<in> set example_legacy_files. l_filename f = Some n)}
      \<and> (\<forall>n info. map_of kvs n = Some info \<longrightarrow>
            (\<exists>f \<in> set example_legacy_files. l_filename f = Some n \<and> info = ?rec f))
      \<and> processed_files (data ?m') = Some (int (length kvs))
      \<and> (distinct (map (\<lambda>f. get_str (l_filename f)) example_legacy_files)
           \<and> (\<forall>f \<in> set example_legacy_files. get_str (l_filename f) \<noteq> []) \<longrightarrow>
            length kvs = length example_legacy_files
            \<and> kvs = map (\<lambda>f. (get_str (l_filename f), ?rec f)) example_legacy_files)
      \<and> (status example_legacy = None \<longrightarrow> status (data ?m') = Some ''completed'')
      \<and> (\<forall>s. status example_legacy = Some s \<longrightarrow> status (data ?m') = Some s)
      \<and> (version example_legacy = None \<longrightarrow> version (data ?m') = Some ''1.0'')
      \<and> (created_at example_legacy = None \<longrightarrow>
            created_at (data ?m')
              = Some (case created example_legacy of None \<Rightarrow> [] | Some c \<Rightarrow> c))
      \<and> (config example_legacy = None \<and> settings example_legacy = None \<longrightarrow>
            config (data ?m')
              = Some \<lparr>thresholds = [78, 72, 66, 58], quality_weight = float_0_4,
                      aesthetic_weight = float_0_6\<rparr>)
      \<and> (total_files example_legacy = None \<and> statistics example_legacy = None \<longrightarrow>
            total_files (data ?m') = Some (int (length kvs)))
      \<and> updated_at (data ?m') = Some (clock example_env (ticks example_legacy_manager))
      \<and> (write_outcome example_env = WriteCompletes \<longrightarrow>
            disk ?m' = Some (concat (json_chunks example_env (data ?m'))))" ..
  note c1 = c [THEN conjunct1]
  note r4 = c [THEN conjunct2, THEN conjunct2, THEN conjunct2, THEN conjunct2]
  note c5 = r4 [THEN conjunct1]
  note c6 = r4 [THEN conjunct2, THEN conjunct1]
  note c7 = r4 [THEN conjunct2, THEN conjunct2, THEN conjunct1]
  note r11 = r4 [THEN conjunct2, THEN conjunct2, THEN conjunct2, THEN conjunct2,
                THEN conjunct2, THEN conjunct2, THEN conjunct2]
  note c12 = r11 [THEN conjunct1]
  note c14 = r11 [THEN conjunct2, THEN conjunct2]
  from c6 h4 have lk: "length kvs = length example_legacy_files"
    and k: "kvs = map (\<lambda>f. (get_str (l_filename f), ?rec f)) example_legacy_files"
    by simp_all
  have kv: "map (\<lambda>f. (get_str (l_filename f), ?rec f)) example_legacy_files
    = [(''a.jpg'', \<lparr>f_hash = Some [], f_original_path = None, f_quality = Some 80,
                    f_aesthetic = Some 70, f_total = Some 74, f_rating = Some 3,
                    f_processed_at = Some ''2023''\<rparr>),
       (''b.jpg'', \<lparr>f_hash = Some [], f_original_path = None, f_quality = Some 0,
                    f_aesthetic = Some 0, f_total = Some 0, f_rating = Some 0,
                    f_processed_at = Some ''2023''\<rparr>),
       (''c.jpg'', \<lparr>f_hash = Some [], f_original_path = None, f_quality = Some 50,
                    f_aesthetic = Some 0, f_total = Some 0, f_rating = Some 0,
                    f_processed_at = Some ''2023''\<rparr>)]"
    by (simp add: example_legacy_files_def example_legacy_def get_str_def legacy_score_def
          legacy_rating_def)
  from c1 k kv have f: "files (data ?m') = Some (FilesDict
           [(''a.jpg'', \<lparr>f_hash = Some [], f_original_path = None, f_quality = Some 80,
                         f_aesthetic = Some 70, f_total = Some 74, f_rating = Some 3,
                         f_processed_at = Some ''2023''\<rparr>),
            (''b.jpg'', \<lparr>f_hash = Some [], f_original_path = None, f_quality = Some 0,
                         f_aesthetic = Some 0, f_total = Some 0, f_rating = Some 0,
                         f_processed_at = Some ''2023''\<rparr>),
            (''c.jpg'', \<lparr>f_hash = Some [], f_original_path = None, f_quality = Some 50,
                         f_aesthetic = Some 0, f_total = Some 0, f_rating = Some 0,
                         f_processed_at = Some ''2023''\<rparr>)])"
    by simp
  from c5 lk len have p: "processed_files (data ?m') = Some 3" by simp
  from c12 h7 lk len have tf: "total_files (data ?m') = Some 3" by simp
  from c7 h5 have s: "status (data ?m') = Some ''completed''" by simp
  from c14 h6 have dk: "disk ?m' = Some (concat (json_chunks example_env (data ?m')))"
    by simp
  from s f have "concat (json_chunks example_env (data ?m')) = ''{completed,a.jpg,b.jpg,c.jpg}''"
    by (simp add: example_env_def example_chunks_def get_str_def)
  with dk have d: "disk ?m' = Some ''{completed,a.jpg,b.jpg,c.jpg}''" by simp
  from h1 h2 h3 len f p tf s d show ?thesis by (intro conjI)
qed

text \<open>
  C10. In a ledger migrated from the legacy list form every record holds the empty
  fingerprint, so \<open>is_file_processed\<close> is false for every filename and path and the pending
  computation returns every path it is given, although the status of the migrated ledger
  is \<open>completed\<close> (when the legacy document had none).
\<close>

theorem migrated_ledger_all_pending:
  assumes "disk m = Some text" and "json_load e text = Some d"
    and "files d = Some (FilesList l)"
  shows "(\<forall>filename info.
            files_lookup (files (data (snd (load e m)))) filename = Some info \<longrightarrow>
            f_hash info = Some [])
      \<and> (\<forall>e' filename file_path.
            \<not> is_file_processed e' (snd (load e m)) filename file_path)
      \<and> (\<forall>e' all_files. get_pending_files e' (snd (load e m)) all_files = all_files)
      \<and> (status d = None \<longrightarrow> is_completed (snd (load e m)))"
proof -
  let ?m' = "snd (load e m)"
  note fl = files_load_legacy [OF assms]
  have 1: "f_hash info = Some []"
    if "files_lookup (files (data ?m')) filename = Some info" for filename info
  proof -
    from that fl have "map_of (migrate_entries d l []) filename = Some info" by simp
    from map_of_migrate_entries [OF this]
    obtain f where "info = migrated_record d f" by auto
    then show ?thesis by (simp add: migrated_record_def Let_def)
  qed
  have 2: "\<not> is_file_processed e' ?m' filename file_path" for e' filename file_path
  proof (cases "files_lookup (files (data ?m')) filename")
    case None
    then show ?thesis by (simp add: is_file_processed_def)
  next
    case (Some info)
    with 1 [OF Some] show ?thesis by (simp add: is_file_processed_def get_str_def)
  qed
  have 3: "get_pending_files e' ?m' all_files = all_files" for e' all_files
    using get_pending_loop_all [of e' ?m' all_files "[]"] 2
    by (simp add: get_pending_files_def)
  have 4: "status d = None \<longrightarrow> is_completed ?m'"
    by (simp add: load_legacy [OF assms] data_save status_migrate_data is_completed_def
          get_status_def)
  from 1 2 3 4 show ?thesis by blast
qed

theorem migrated_ledger_all_pending_witness:
  "disk example_legacy_manager = Some ''legacy''
   \<and> json_load example_env ''legacy'' = Some example_legacy
   \<and> files example_legacy = Some (FilesList example_legacy_files)
   \<and> get_pending_files example_env (snd (load example_env example_legacy_manager))
        [''/d/a.jpg'', ''/d/b.jpg'', ''/d/c.jpg'']
      = [''/d/a.jpg'', ''/d/b.jpg'', ''/d/c.jpg'']
   \<and> is_completed (snd (load example_env example_legacy_manager))"
proof -
  have h1: "disk example_legacy_manager = Some ''legacy''"
    by (simp add: example_legacy_manager_def)
  have h2: "json_load example_env ''legacy'' = Some example_legacy"
    by (simp add: example_env_def)
  have h3: "files example_legacy = Some (FilesList example_legacy_files)"
    by (simp add: example_legacy_def)
  have h5: "status example_legacy = None" by (simp add: example_legacy_def)
  from migrated_ledger_all_pending [OF h1 h2 h3] h1 h2 h3 h5
  show ?thesis by blast
qed

lemma disk_save_interrupted:
  "disk (save_interrupted e k m) =
     (if 0 < k then Some (concat (take (k - 1) (json_chunks e (data (save e m)))))
      else disk m)"
  by (simp add: save_interrupted_def now_def Let_def take_save_ops data_save)

text \<open>
  C4, as amended. \<open>save\<close> refreshes \<open>updated_at\<close> and writes the complete document into
  the manifest file itself: it opens the file for writing, which truncates it, and then
  appends the document piece by piece. When this runs to completion the file holds
  exactly the complete document. An IOError is swallowed: raised by the opening, it
  leaves the file as it was; raised later, it leaves the file truncated with the pieces
  written before the error, and \<open>save\<close> still returns. A process interrupted after
  \<open>k > 0\<close> of these effects leaves in the file the first \<open>k - 1\<close> pieces only.
\<close>

theorem save_writes_in_place:
  "data (save e m) = (data m)\<lparr>updated_at := Some (clock e (ticks m))\<rparr>
   \<and> (write_outcome e = WriteCompletes \<longrightarrow>
        disk (save e m) = Some (concat (json_chunks e (data (save e m)))))
   \<and> (write_outcome e = OpenFails \<longrightarrow> disk (save e m) = disk m)
   \<and> (\<forall>j. write_outcome e = WriteFails j \<longrightarrow>
        disk (save e m) = Some (concat (take j (json_chunks e (data (save e m))))))
   \<and> (\<forall>k. 0 < k \<longrightarrow>
         disk (save_interrupted e k m)
           = Some (concat (take (k - 1) (json_chunks e (data (save e m))))))
   \<and> disk (save_interrupted e 0 m) = disk m"
  by (simp add: data_save disk_save disk_save_interrupted)

theorem save_writes_in_place_witness:
  "write_outcome example_env = WriteCompletes
   \<and> disk (save example_env example_manager) = Some ''{completed,a.jpg,c.jpg,d.jpg}''
   \<and> write_outcome (example_env\<lparr>write_outcome := OpenFails\<rparr>) = OpenFails
   \<and> disk (save (example_env\<lparr>write_outcome := OpenFails\<rparr>) example_manager)
       = Some ''current''
   \<and> write_outcome (example_env\<lparr>write_outcome := WriteFails 2\<rparr>) = WriteFails 2
   \<and> disk (save (example_env\<lparr>write_outcome := WriteFails 2\<rparr>) example_manager)
       = Some ''{completed''
   \<and> (0::nat) < 2
   \<and> disk (save_interrupted example_env 2 example_manager) = Some ''{''"
proof -
  let ?e1 = "example_env\<lparr>write_outcome := OpenFails\<rparr>"
  let ?e2 = "example_env\<lparr>write_outcome := WriteFails 2\<rparr>"
  have w: "write_outcome example_env = WriteCompletes" by (simp add: example_env_def)
  have c: "json_chunks example_env (data (save example_env example_manager))
             = [''{'', ''completed'', '',a.jpg'', '',c.jpg'', '',d.jpg'', ''}'']"
    by (simp add: data_save example_env_def example_manager_def example_data_def
          example_chunks_def get_str_def)
  have c2: "json_chunks ?e2 (data (save ?e2 example_manager))
             = [''{'', ''completed'', '',a.jpg'', '',c.jpg'', '',d.jpg'', ''}'']"
    by (simp add: data_save example_env_def example_manager_def example_data_def
          example_chunks_def get_str_def)
  have d: "disk example_manager = Some ''current''" by (simp add: example_manager_def)
  note t = save_writes_in_place [of example_env example_manager]
  note t1 = save_writes_in_place [of ?e1 example_manager]
  note t2 = save_writes_in_place [of ?e2 example_manager]
  from t w c have a1: "disk (save example_env example_manager)
      = Some ''{completed,a.jpg,c.jpg,d.jpg}''" by simp
  from t1 d have a2: "disk (save ?e1 example_manager) = Some ''current''" by simp
  from t2 c2 have a3: "disk (save ?e2 example_manager) = Some ''{completed''" by simp
  from t c have a4: "disk (save_interrupted example_env 2 example_manager) = Some ''{''"
    by simp
  from w a1 a2 a3 a4 show ?thesis by simp
qed

text \<open>
  C4 as stated fails: a valid ledger is on disk, and a save that is interrupted right
  after the file was opened for writing leaves an empty file, which does not parse; after
  one more step the file holds a torn document.
\<close>

theorem save_not_atomic_counterexample:
  "disk example_manager = Some ''current''
   \<and> json_load example_env ''current'' \<noteq> None
   \<and> disk (save_interrupted example_env 1 example_manager) = Some []
   \<and> json_load example_env [] = None
   \<and> disk (save_interrupted example_env 2 example_manager) = Some ''{''
   \<and> disk (save example_env example_manager) = Some ''{completed,a.jpg,c.jpg,d.jpg}''"
  by (simp add: disk_save_interrupted disk_save data_save example_env_def
        example_manager_def example_data_def example_chunks_def get_str_def)

section \<open>Properties of \<open>add_file_result\<close>\<close>

lemma add_file_result_dict:
  assumes "files (data m) = Some (FilesDict kvs)"
  shows "add_file_result e fn fp q a t r m =
     Inr (m\<lparr>ticks := ticks m + 1,
            data := (data m)
              \<lparr>files := Some (FilesDict (AList.update fn
                  \<lparr>f_hash = Some (calculate_file_hash (md5 e) (read_file e) fp),
                   f_original_path = Some fp,
                   f_quality = Some (py_round e q 2),
                   f_aesthetic = Some (py_round e a 2),
                   f_total = Some (py_round e t 2),
                   f_rating = Some r,
                   f_processed_at = Some (clock e (ticks m))\<rparr> kvs)),
               processed_files := Some (int (length (AList.update fn
                  \<lparr>f_hash = Some (calculate_file_hash (md5 e) (read_file e) fp),
                   f_original_path = Some fp,
                   f_quality = Some (py_round e q 2),
                   f_aesthetic = Some (py_round e a 2),
                   f_total = Some (py_round e t 2),
                   f_rating = Some r,
                   f_processed_at = Some (clock e (ticks m))\<rparr> kvs)))\<rparr>\<rparr>)"
  using assms by (simp add: add_file_result_def now_def Let_def)

lemma add_file_result_Inr_dict:
  assumes "add_file_result e fn fp q a t r m = Inr m1"
  obtains kvs where "files (data m) = Some (FilesDict kvs)"
proof (cases "files (data m)")
  case None
  with assms show ?thesis by (simp add: add_file_result_def)
next
  case (Some ff)
  with assms that show ?thesis
    by (cases ff) (simp_all add: add_file_result_def)
qed

lemma length_update_present:
  "k \<in> fst ` set al \<Longrightarrow> length (AList.update k v al) = length al"
  by (induction al) auto

text \<open>
  C3, as amended. A second upsert with the same arguments (same collaborators, so the
  same file content) succeeds, leaves \<open>processed_files\<close> and every other record as they
  are, and stores for the filename the record of the first call with \<open>processed_at\<close>
  replaced by the time of the second call; when the clock reads the same at both calls,
  the document does not change at all.
\<close>

theorem add_file_result_twice:
  assumes "add_file_result e fn fp q a t r m = Inr m1"
  shows "\<exists>m2 info. add_file_result e fn fp q a t r m1 = Inr m2
      \<and> processed_files (data m2) = processed_files (data m1)
      \<and> files_lookup (files (data m1)) fn = Some info
      \<and> files_lookup (files (data m2)) fn
          = Some (info\<lparr>f_processed_at := Some (clock e (ticks m1))\<rparr>)
      \<and> (\<forall>other. other \<noteq> fn \<longrightarrow>
            files_lookup (files (data m2)) other = files_lookup (files (data m1)) other)
      \<and> (clock e (ticks m1) = clock e (ticks m) \<longrightarrow> data m2 = data m1)"
proof -
  from assms obtain kvs where kvs: "files (data m) = Some (FilesDict kvs)"
    by (rule add_file_result_Inr_dict)
  let ?h = "calculate_file_hash (md5 e) (read_file e) fp"
  let ?rec = "\<lambda>ts. \<lparr>f_hash = Some ?h, f_original_path = Some fp,
      f_quality = Some (py_round e q 2), f_aesthetic = Some (py_round e a 2),
      f_total = Some (py_round e t 2), f_rating = Some r, f_processed_at = Some ts\<rparr>"
  let ?kvs1 = "AList.update fn (?rec (clock e (ticks m))) kvs"
  have m1: "m1 = m\<lparr>ticks := ticks m + 1,
                   data := (data m)\<lparr>files := Some (FilesDict ?kvs1),
                                    processed_files := Some (int (length ?kvs1))\<rparr>\<rparr>"
    using assms add_file_result_dict [OF kvs, of e fn fp q a t r] by simp
  then have f1: "files (data m1) = Some (FilesDict ?kvs1)" by simp
  let ?kvs2 = "AList.update fn (?rec (clock e (ticks m1))) ?kvs1"
  let ?m2 = "m1\<lparr>ticks := ticks m1 + 1,
                 data := (data m1)\<lparr>files := Some (FilesDict ?kvs2),
                                   processed_files := Some (int (length ?kvs2))\<rparr>\<rparr>"
  have a: "add_file_result e fn fp q a t r m1 = Inr ?m2"
    by (rule add_file_result_dict [OF f1])
  have "fn \<in> fst ` set ?kvs1" by (simp add: dom_update)
  then have len: "length ?kvs2 = length ?kvs1" by (rule length_update_present)
  have b: "processed_files (data ?m2) = processed_files (data m1)"
    using len by (simp add: m1)
  have c: "files_lookup (files (data m1)) fn = Some (?rec (clock e (ticks m)))"
    by (simp add: f1 update_conv')
  have d: "files_lookup (files (data ?m2)) fn
             = Some ((?rec (clock e (ticks m)))\<lparr>f_processed_at := Some (clock e (ticks m1))\<rparr>)"
    by (simp add: update_conv')
  have e: "\<forall>other. other \<noteq> fn \<longrightarrow>
             files_lookup (files (data ?m2)) other = files_lookup (files (data m1)) other"
    by (simp add: f1 update_conv')
  have f: "clock e (ticks m1) = clock e (ticks m) \<longrightarrow> data ?m2 = data m1"
    by (simp add: m1)
  show ?thesis
    by (intro exI [of _ ?m2] exI [of _ "?rec (clock e (ticks m))"] conjI) (fact a b c d e f)+
qed

theorem add_file_result_twice_witness:
  "example_upsert example_manager
     = Inr (projr (example_upsert example_manager))
   \<and> processed_files (data (projr (example_upsert (projr (example_upsert example_manager)))))
       = Some 3
   \<and> processed_files (data (projr (example_upsert example_manager))) = Some 3"
proof -
  let ?m1 = "projr (example_upsert example_manager)"
  have f: "files (data example_manager)
     = Some (FilesDict [(''a.jpg'', example_record ''#xx''), (''c.jpg'', example_record []),
                        (''d.jpg'', example_record ''#x'')])"
    by (simp add: example_manager_def example_data_def)
  have h: "example_upsert example_manager = Inr ?m1"
    unfolding example_upsert_def by (simp add: add_file_result_dict [OF f])
  have p1: "processed_files (data ?m1) = Some 3"
    unfolding example_upsert_def by (simp add: add_file_result_dict [OF f])
  from add_file_result_twice [OF h [unfolded example_upsert_def]]
  obtain m2 where m2: "example_upsert ?m1 = Inr m2"
    and p: "processed_files (data m2) = processed_files (data ?m1)"
    unfolding example_upsert_def by blast
  from m2 p p1 h show ?thesis by simp
qed

text \<open>
  C3 as stated fails: the clock has advanced between the two calls, and the record stored
  by the second call differs from the one stored by the first in \<open>processed_at\<close>.
\<close>

theorem add_file_result_twice_counterexample:
  "example_upsert example_manager = Inr (projr (example_upsert example_manager))
   \<and> example_upsert (projr (example_upsert example_manager))
       = Inr (projr (example_upsert (projr (example_upsert example_manager))))
   \<and> map_option f_processed_at
        (files_lookup (files (data (projr (example_upsert example_manager)))) ''a.jpg'')
       = Some (Some ''t'')
   \<and> map_option f_processed_at
        (files_lookup
           (files (data (projr (example_upsert (projr (example_upsert example_manager))))))
           ''a.jpg'')
       = Some (Some ''t+'')
   \<and> files_lookup
        (files (data (projr (example_upsert (projr (example_upsert example_manager))))))
        ''a.jpg''
       \<noteq> files_lookup (files (data (projr (example_upsert example_manager)))) ''a.jpg''"
proof -
  have f: "files (data example_manager)
     = Some (FilesDict [(''a.jpg'', example_record ''#xx''), (''c.jpg'', example_record []),
                        (''d.jpg'', example_record ''#x'')])"
    by (simp add: example_manager_def example_data_def)
  have t: "ticks example_manager = 0" by (simp add: example_manager_def)
  have c: "clock example_env = (\<lambda>n. CHR ''t'' # replicate n CHR ''+'')"
    by (simp add: example_env_def)
  show ?thesis
    unfolding example_upsert_def
    by (simp add: add_file_result_dict [OF f] add_file_result_dict t c)
qed

section \<open>Properties of \<open>quick_rerate\<close>\<close>

lemma files_init_new_manifest:
  "files (data (init_new_manifest e m)) = Some (FilesDict [])"
  by (simp add: init_new_manifest_def now_def Let_def)

lemma files_migrate_old_format_not_list:
  "files (data (migrate_old_format e m)) \<noteq> Some (FilesList l)"
proof (cases "files (data m)")
  case None
  then show ?thesis by (simp add: migrate_old_format_def)
next
  case (Some ff)
  then show ?thesis
    by (cases ff) (simp_all add: migrate_old_format_def data_save files_migrate_data)
qed

lemma files_ManifestManager_not_list:
  "files (data (ManifestManager e dk n)) \<noteq> Some (FilesList l)"
proof (cases dk)
  case None
  then show ?thesis by (simp add: ManifestManager_def files_init_new_manifest)
next
  case (Some content)
  show ?thesis
  proof (cases "json_load e content")
    case None
    with Some show ?thesis
      by (simp add: ManifestManager_def load_def files_init_new_manifest)
  next
    case (Some d)
    with \<open>dk = Some content\<close> show ?thesis
      by (simp add: ManifestManager_def load_def files_migrate_old_format_not_list)
  qed
qed

lemma get_all_cached_scores_ManifestManager:
  "\<exists>items. get_all_cached_scores (ManifestManager e dk n) = Inr items"
proof (cases "files (data (ManifestManager e dk n))")
  case None
  then show ?thesis by (simp add: get_all_cached_scores_def)
next
  case (Some ff)
  then show ?thesis
    using files_ManifestManager_not_list [of e dk n]
    by (cases ff) (simp_all add: get_all_cached_scores_def)
qed

lemma ManifestManager_current:
  assumes "dk = Some text" and "json_load e text = Some d"
    and "\<forall>l. files d \<noteq> Some (FilesList l)"
  shows "ManifestManager e dk n = \<lparr>data = d, disk = dk, ticks = n\<rparr>"
proof (cases "files d")
  case None
  with assms show ?thesis
    by (simp add: ManifestManager_def load_def migrate_old_format_def)
next
  case (Some ff)
  with assms show ?thesis
    by (cases ff) (simp_all add: ManifestManager_def load_def migrate_old_format_def)
qed

text \<open>
  C5. When the status of the ledger the manager has loaded is not \<open>completed\<close>,
  \<open>quick_rerate\<close> raises ValueError and the manager and its file are as the constructor
  left them: no rating was recomputed or updated, no configuration set, nothing saved.
  When the status is \<open>completed\<close> it returns a list. For a ledger in the current format
  the constructor leaves document and file exactly as persisted.
\<close>

theorem quick_rerate_requires_completed:
  "(get_status (ManifestManager e dk n) \<noteq> ''completed'' \<longrightarrow>
      quick_rerate e dk n ths qw aw = (Inl ValueError, ManifestManager e dk n))
   \<and> (get_status (ManifestManager e dk n) = ''completed'' \<longrightarrow>
        (\<exists>results. fst (quick_rerate e dk n ths qw aw) = Inr results))
   \<and> (\<forall>text d. dk = Some text \<and> json_load e text = Some d
         \<and> (\<forall>l. files d \<noteq> Some (FilesList l)) \<longrightarrow>
         ManifestManager e dk n = \<lparr>data = d, disk = dk, ticks = n\<rparr>)"
proof -
  have 1: "get_status (ManifestManager e dk n) \<noteq> ''completed'' \<longrightarrow>
      quick_rerate e dk n ths qw aw = (Inl ValueError, ManifestManager e dk n)"
    by (simp add: quick_rerate_def is_completed_def Let_def)
  have 2: "get_status (ManifestManager e dk n) = ''completed'' \<longrightarrow>
        (\<exists>results. fst (quick_rerate e dk n ths qw aw) = Inr results)"
  proof
    assume c: "get_status (ManifestManager e dk n) = ''completed''"
    obtain items where "get_all_cached_scores (ManifestManager e dk n) = Inr items"
      using get_all_cached_scores_ManifestManager by blast
    with c show "\<exists>results. fst (quick_rerate e dk n ths qw aw) = Inr results"
      by (simp add: quick_rerate_def is_completed_def Let_def split: prod.splits)
  qed
  have 3: "\<forall>text d. dk = Some text \<and> json_load e text = Some d
         \<and> (\<forall>l. files d \<noteq> Some (FilesList l)) \<longrightarrow>
         ManifestManager e dk n = \<lparr>data = d, disk = dk, ticks = n\<rparr>"
    using ManifestManager_current by blast
  from 1 2 3 show ?thesis by (intro conjI)
qed

theorem quick_rerate_requires_completed_witness:
  "get_status (ManifestManager example_env (Some ''partial'') 0) \<noteq> ''completed''
   \<and> quick_rerate example_env (Some ''partial'') 0 (78, 72, 66, 58) (4 / 10) (6 / 10)
       = (Inl ValueError,
          \<lparr>data = (example_data [(''a.jpg'', example_record ''#xx'')])
                    \<lparr>status := Some ''in_progress''\<rparr>,
           disk = Some ''partial'', ticks = 0\<rparr>)
   \<and> get_status (ManifestManager example_env (Some ''current'') 0) = ''completed''
   \<and> isl (fst (quick_rerate example_env (Some ''current'') 0 (78, 72, 66, 58) (4 / 10) (6 / 10)))
       = False"
proof -
  let ?d = "example_data [(''a.jpg'', example_record ''#xx'')]"
  have l1: "json_load example_env ''partial'' = Some (?d\<lparr>status := Some ''in_progress''\<rparr>)"
    by (simp add: example_env_def)
  have l2: "json_load example_env ''current'' = Some ?d"
    by (simp add: example_env_def)
  have nl1: "\<forall>l. files (?d\<lparr>status := Some ''in_progress''\<rparr>) \<noteq> Some (FilesList l)"
    by (simp add: example_data_def)
  have nl2: "\<forall>l. files ?d \<noteq> Some (FilesList l)"
    by (simp add: example_data_def)
  note t = quick_rerate_requires_completed
  have m1: "ManifestManager example_env (Some ''partial'') 0
              = \<lparr>data = ?d\<lparr>status := Some ''in_progress''\<rparr>, disk = Some ''partial'', ticks = 0\<rparr>"
    using t [of example_env "Some ''partial''" 0] l1 nl1 by blast
  have m2: "ManifestManager example_env (Some ''current'') 0
              = \<lparr>data = ?d, disk = Some ''current'', ticks = 0\<rparr>"
    using t [of example_env "Some ''current''" 0] l2 nl2 by blast
  have s1: "get_status (ManifestManager example_env (Some ''partial'') 0) \<noteq> ''completed''"
    by (simp add: m1 get_status_def)
  have s2: "get_status (ManifestManager example_env (Some ''current'') 0) = ''completed''"
    by (simp add: m2 get_status_def example_data_def)
  from t [of example_env "Some ''partial''" 0 "(78, 72, 66, 58)" "4 / 10" "6 / 10"] s1
  have q1: "quick_rerate example_env (Some ''partial'') 0 (78, 72, 66, 58) (4 / 10) (6 / 10)
       = (Inl ValueError, ManifestManager example_env (Some ''partial'') 0)"
    by blast
  from t [of example_env "Some ''current''" 0 "(78, 72, 66, 58)" "4 / 10" "6 / 10"] s2
  obtain results where
    "fst (quick_rerate example_env (Some ''current'') 0 (78, 72, 66, 58) (4 / 10) (6 / 10))
       = Inr results"
    by blast
  with s1 s2 q1 m1 show ?thesis by simp
qed

lemma rerate_loop_results:
  "snd (rerate_loop e ths qw aw items m acc) = acc @ map (rated_entry e ths qw aw) items"
  by (induction items arbitrary: m acc)
     (auto simp: Let_def rated_entry_def weighted_total_def)

lemma update_file_rating_dict:
  assumes "files (data m) = Some (FilesDict kvs)"
  shows "files (data (update_file_rating e fn nr m))
           = Some (FilesDict (set_rating_in fn nr (clock e (ticks m)) kvs))"
  using assms
  by (simp add: update_file_rating_def set_rating_in_def now_def Let_def split: option.splits)

lemma keys_set_rating_in: "map fst (set_rating_in fn nr ts kvs) = map fst kvs"
proof (cases "map_of kvs fn")
  case None
  then show ?thesis by (simp add: set_rating_in_def)
next
  case (Some info)
  then have "fn \<in> set (map fst kvs)" by (metis map_of_eq_None_iff option.distinct(1) set_map)
  with Some show ?thesis by (simp add: set_rating_in_def update_keys)
qed

lemma map_of_set_rating_in:
  "map_of (set_rating_in fn nr ts kvs) k =
     (if k = fn
      then map_option (\<lambda>info. info\<lparr>f_rating := Some nr, f_processed_at := Some ts\<rparr>)
             (map_of kvs fn)
      else map_of kvs k)"
  by (cases "map_of kvs fn") (simp_all add: set_rating_in_def update_conv')

lemma frozen_set_rating_in:
  "map_option frozen_fields (map_of (set_rating_in fn nr ts kvs) k)
     = map_option frozen_fields (map_of kvs k)"
  by (cases "map_of kvs fn")
     (simp_all add: map_of_set_rating_in frozen_fields_def option.map_comp comp_def)

lemma rating_set_rating_in:
  "map_option f_rating (map_of (set_rating_in fn nr ts kvs) k)
     = (if k = fn then map_option (\<lambda>i. Some nr) (map_of kvs k)
        else map_option f_rating (map_of kvs k))"
  by (simp add: map_of_set_rating_in option.map_comp comp_def)

lemma rerate_loop_files:
  assumes "files (data m) = Some (FilesDict kvs)"
  shows "\<exists>kvs'. files (data (fst (rerate_loop e ths qw aw items m acc))) = Some (FilesDict kvs')
      \<and> map fst kvs' = map fst kvs
      \<and> (\<forall>k. map_option frozen_fields (map_of kvs' k)
                = map_option frozen_fields (map_of kvs k))
      \<and> (distinct (map fst items) \<longrightarrow>
           (\<forall>k. map_option f_rating (map_of kvs' k) =
              (case map_of items k of
                 None \<Rightarrow> map_option f_rating (map_of kvs k)
               | Some sc \<Rightarrow>
                   map_option
                     (\<lambda>i. Some (new_rating_of (weighted_total e (quality sc) (aesthetic sc) qw aw) ths))
                     (map_of kvs k))))"
  using assms
proof (induction items arbitrary: m kvs acc)
  case Nil
  then show ?case by simp
next
  case (Cons item items)
  obtain fn sc where item: "item = (fn, sc)" by (cases item)
  let ?nr = "new_rating_of (weighted_total e (quality sc) (aesthetic sc) qw aw) ths"
  let ?m1 = "update_file_rating e fn ?nr m"
  let ?kvs1 = "set_rating_in fn ?nr (clock e (ticks m)) kvs"
  have f1: "files (data ?m1) = Some (FilesDict ?kvs1)"
    by (rule update_file_rating_dict [OF Cons.prems])
  let ?acc1 = "acc @ [\<lparr>r_filename = fn, r_old_rating = rating sc, r_new_rating = ?nr,
                       r_total = py_round e (weighted_total e (quality sc) (aesthetic sc) qw aw) 2,
                       r_changed = (rating sc \<noteq> ?nr)\<rparr>]"
  have step: "rerate_loop e ths qw aw (item # items) m acc
                = rerate_loop e ths qw aw items ?m1 ?acc1"
    by (simp add: item Let_def weighted_total_def)
  from Cons.IH [OF f1, of ?acc1] obtain kvs' where
    a: "files (data (fst (rerate_loop e ths qw aw items ?m1 ?acc1))) = Some (FilesDict kvs')"
    and b: "map fst kvs' = map fst ?kvs1"
    and c: "\<forall>k. map_option frozen_fields (map_of kvs' k)
                = map_option frozen_fields (map_of ?kvs1 k)"
    and d: "distinct (map fst items) \<longrightarrow>
           (\<forall>k. map_option f_rating (map_of kvs' k) =
              (case map_of items k of
                 None \<Rightarrow> map_option f_rating (map_of ?kvs1 k)
               | Some sc \<Rightarrow>
                   map_option
                     (\<lambda>i. Some (new_rating_of (weighted_total e (quality sc) (aesthetic sc) qw aw) ths))
                     (map_of ?kvs1 k)))"
    by (elim exE conjE)
  have b': "map fst kvs' = map fst kvs" using b by (simp add: keys_set_rating_in)
  have c': "\<forall>k. map_option frozen_fields (map_of kvs' k)
                = map_option frozen_fields (map_of kvs k)"
    using c by (simp add: frozen_set_rating_in)
  have d': "distinct (map fst (item # items)) \<longrightarrow>
           (\<forall>k. map_option f_rating (map_of kvs' k) =
              (case map_of (item # items) k of
                 None \<Rightarrow> map_option f_rating (map_of kvs k)
               | Some sc \<Rightarrow>
                   map_option
                     (\<lambda>i. Some (new_rating_of (weighted_total e (quality sc) (aesthetic sc) qw aw) ths))
                     (map_of kvs k)))"
  proof (intro impI allI)
    fix k
    assume dist: "distinct (map fst (item # items))"
    then have di: "distinct (map fst items)" and nin: "fn \<notin> fst ` set items"
      by (simp_all add: item)
    from nin have none: "map_of items fn = None" by (simp add: map_of_eq_None_iff)
    note dk = d [rule_format, OF di, of k]
    show "map_option f_rating (map_of kvs' k) =
              (case map_of (item # items) k of
                 None \<Rightarrow> map_option f_rating (map_of kvs k)
               | Some sc \<Rightarrow>
                   map_option
                     (\<lambda>i. Some (new_rating_of (weighted_total e (quality sc) (aesthetic sc) qw aw) ths))
                     (map_of kvs k))"
    proof (cases "k = fn")
      case True
      with dk none show ?thesis by (simp add: item rating_set_rating_in)
    next
      case False
      with dk show ?thesis
        by (simp add: item rating_set_rating_in map_of_set_rating_in split: option.splits)
    qed
  qed
  show ?case
    unfolding step by (intro exI [of _ kvs'] conjI) (fact a b' c' d')+
qed

lemma quick_rerate_Inr:
  assumes "quick_rerate e dk n ths qw aw = (Inr results, m')"
  obtains items where "get_all_cached_scores (ManifestManager e dk n) = Inr items"
    and "results = map (rated_entry e ths qw aw) items"
    and "m' = save e (set_config ths qw aw
                 (fst (rerate_loop e ths qw aw items (ManifestManager e dk n) [])))"
proof -
  let ?M = "ManifestManager e dk n"
  from assms have c: "is_completed ?M"
    by (simp add: quick_rerate_def Let_def split: if_splits)
  obtain items where items: "get_all_cached_scores ?M = Inr items"
    using get_all_cached_scores_ManifestManager by blast
  obtain m1 rs where loop: "rerate_loop e ths qw aw items ?M [] = (m1, rs)"
    by (cases "rerate_loop e ths qw aw items ?M []")
  from rerate_loop_results [of e ths qw aw items ?M "[]"] loop
  have rs: "rs = map (rated_entry e ths qw aw) items" by simp
  from assms c items loop
  have "results = rs" and "m' = save e (set_config ths qw aw m1)"
    by (simp_all add: quick_rerate_def Let_def)
  with rs loop items that show ?thesis by simp
qed

lemma files_set_config: "files (data (set_config ths qw aw m)) = files (data m)"
  by (cases ths) (simp add: set_config_def)

lemma config_set_config:
  "config (data (set_config (t4, t3, t2, t1) qw aw m))
     = Some \<lparr>thresholds = [t4, t3, t2, t1], quality_weight = qw, aesthetic_weight = aw\<rparr>"
  by (simp add: set_config_def)

lemma new_rating_of_lower:
  "threshold ths 4 \<le> tot \<Longrightarrow> 4 \<le> new_rating_of tot ths"
  "threshold ths 3 \<le> tot \<Longrightarrow> 3 \<le> new_rating_of tot ths"
  "threshold ths 2 \<le> tot \<Longrightarrow> 2 \<le> new_rating_of tot ths"
  "threshold ths 1 \<le> tot \<Longrightarrow> 1 \<le> new_rating_of tot ths"
  by (cases ths; simp add: new_rating_of_def threshold_def)+

lemma new_rating_of_range: "new_rating_of tot ths \<in> {0, 1, 2, 3, 4}"
  by (cases ths) (simp add: new_rating_of_def)

lemma new_rating_of_mem:
  "new_rating_of tot ths = 0 \<or> threshold ths (new_rating_of tot ths) \<le> tot"
  by (cases ths) (simp add: new_rating_of_def threshold_def)

lemma new_rating_of_Max:
  "new_rating_of tot ths = Max (insert 0 {k \<in> {1, 2, 3, 4}. threshold ths k \<le> tot})"
proof -
  let ?S = "insert 0 {k \<in> {1, 2, 3, 4 :: int}. threshold ths k \<le> tot}"
  have fin: "finite ?S" by simp
  have mem: "new_rating_of tot ths \<in> ?S"
    using new_rating_of_range [of tot ths] new_rating_of_mem [of tot ths] by blast
  have ub: "k \<le> new_rating_of tot ths" if "k \<in> ?S" for k
  proof -
    from that consider "k = 0" | "k = 1" "threshold ths 1 \<le> tot"
      | "k = 2" "threshold ths 2 \<le> tot" | "k = 3" "threshold ths 3 \<le> tot"
      | "k = 4" "threshold ths 4 \<le> tot"
      by blast
    then show ?thesis
    proof cases
      case 1
      with new_rating_of_range [of tot ths] show ?thesis by auto
    qed (simp_all add: new_rating_of_lower)
  qed
  have "Max ?S = new_rating_of tot ths"
    by (rule Max_eqI [OF fin _ mem]) (rule ub)
  then show ?thesis by simp
qed

lemma new_rating_of_descending:
  assumes "t3 < t4" and "t2 < t3" and "t1 < t2"
  shows "(new_rating_of tot (t4, t3, t2, t1) = 4 \<longleftrightarrow> t4 \<le> tot)
       \<and> (new_rating_of tot (t4, t3, t2, t1) = 3 \<longleftrightarrow> t3 \<le> tot \<and> tot < t4)
       \<and> (new_rating_of tot (t4, t3, t2, t1) = 2 \<longleftrightarrow> t2 \<le> tot \<and> tot < t3)
       \<and> (new_rating_of tot (t4, t3, t2, t1) = 1 \<longleftrightarrow> t1 \<le> tot \<and> tot < t2)
       \<and> (new_rating_of tot (t4, t3, t2, t1) = 0 \<longleftrightarrow> tot < t1)"
proof -
  consider "t4 \<le> tot" | "tot < t4" "t3 \<le> tot" | "tot < t3" "t2 \<le> tot"
    | "tot < t2" "t1 \<le> tot" | "tot < t1"
    by linarith
  then show ?thesis
    using assms by cases (simp_all add: new_rating_of_def)
qed

lemma quick_rerate_stored:
  assumes q: "quick_rerate e dk n ths qw aw = (Inr results, m')"
    and f: "files (data (ManifestManager e dk n)) = Some (FilesDict kvs)"
  shows "\<exists>kvs'. files (data m') = Some (FilesDict kvs')
      \<and> map fst kvs' = map fst kvs
      \<and> (\<forall>k. map_option frozen_fields (map_of kvs' k)
                = map_option frozen_fields (map_of kvs k))
      \<and> (distinct (map fst kvs) \<longrightarrow>
           (\<forall>k info. map_of kvs k = Some info \<longrightarrow>
              map_option f_rating (map_of kvs' k) =
                Some (Some (new_rating_of
                  (weighted_total e (get_real (f_quality info)) (get_real (f_aesthetic info)) qw aw) ths))))"
proof -
  let ?M = "ManifestManager e dk n"
  let ?items = "map (\<lambda>(filename, info). (filename, cached_scores info)) kvs"
  from q obtain items where items: "get_all_cached_scores ?M = Inr items"
    and m': "m' = save e (set_config ths qw aw (fst (rerate_loop e ths qw aw items ?M [])))"
    by (rule quick_rerate_Inr)
  from items f have it: "items = ?items" by (simp add: get_all_cached_scores_def)
  have keys: "map fst ?items = map fst kvs" by (induction kvs) auto
  have mo: "map_of ?items k = map_option cached_scores (map_of kvs k)" for k
    by (induction kvs) auto
  from rerate_loop_files [OF f, of e ths qw aw items "[]"] obtain kvs' where
    a: "files (data (fst (rerate_loop e ths qw aw items ?M []))) = Some (FilesDict kvs')"
    and b: "map fst kvs' = map fst kvs"
    and c: "\<forall>k. map_option frozen_fields (map_of kvs' k)
                = map_option frozen_fields (map_of kvs k)"
    and d: "distinct (map fst items) \<longrightarrow>
           (\<forall>k. map_option f_rating (map_of kvs' k) =
              (case map_of items k of
                 None \<Rightarrow> map_option f_rating (map_of kvs k)
               | Some sc \<Rightarrow>
                   map_option
                     (\<lambda>i. Some (new_rating_of (weighted_total e (quality sc) (aesthetic sc) qw aw) ths))
                     (map_of kvs k)))"
    by (elim exE conjE)
  have a': "files (data m') = Some (FilesDict kvs')"
    by (simp add: m' data_save files_set_config a)
  have d': "distinct (map fst kvs) \<longrightarrow>
           (\<forall>k info. map_of kvs k = Some info \<longrightarrow>
              map_option f_rating (map_of kvs' k) =
                Some (Some (new_rating_of
                  (weighted_total e (get_real (f_quality info)) (get_real (f_aesthetic info)) qw aw) ths)))"
  proof (intro impI allI)
    fix k info
    assume dist: "distinct (map fst kvs)" and k: "map_of kvs k = Some info"
    from dist keys have "distinct (map fst items)" by (simp only: it)
    from d [rule_format, OF this, of k] k have
      "map_option f_rating (map_of kvs' k) =
         Some (Some (new_rating_of
           (weighted_total e (quality (cached_scores info)) (aesthetic (cached_scores info)) qw aw) ths))"
      by (simp add: it mo)
    then show
      "map_option f_rating (map_of kvs' k) =
         Some (Some (new_rating_of
           (weighted_total e (get_real (f_quality info)) (get_real (f_aesthetic info)) qw aw) ths))"
      by (simp add: cached_scores_def)
  qed
  show ?thesis by (intro exI [of _ kvs'] conjI) (fact a' b c d')+
qed

text \<open>
  C6. The rating chain of \<open>quick_rerate\<close> returns the highest bucket among 4, 3, 2, 1 whose
  threshold the total reaches, and 0 when it reaches none; a total equal to a threshold
  gets that bucket (or a higher one); the rating is one of 0 to 4, never 5. For strictly
  descending thresholds the buckets are the intervals between consecutive thresholds.
  The changelist of a successful \<open>quick_rerate\<close> holds, for every cached record, the
  rating of the total \<open>quality * qw + aesthetic * aw\<close> as the float operations compute
  it, and (the filenames of a dictionary being distinct) that rating is what the ledger
  then stores for the record.
\<close>

theorem rating_policy:
  "new_rating_of tot ths = Max (insert 0 {k \<in> {1, 2, 3, 4}. threshold ths k \<le> tot})
   \<and> new_rating_of tot ths \<in> {0, 1, 2, 3, 4}
   \<and> new_rating_of tot ths \<noteq> 5
   \<and> (\<forall>k \<in> {1, 2, 3, 4}. tot = threshold ths k \<longrightarrow> k \<le> new_rating_of tot ths)
   \<and> (\<forall>t4 t3 t2 t1. ths = (t4, t3, t2, t1) \<and> t3 < t4 \<and> t2 < t3 \<and> t1 < t2 \<longrightarrow>
         (new_rating_of tot ths = 4 \<longleftrightarrow> t4 \<le> tot)
         \<and> (new_rating_of tot ths = 3 \<longleftrightarrow> t3 \<le> tot \<and> tot < t4)
         \<and> (new_rating_of tot ths = 2 \<longleftrightarrow> t2 \<le> tot \<and> tot < t3)
         \<and> (new_rating_of tot ths = 1 \<longleftrightarrow> t1 \<le> tot \<and> tot < t2)
         \<and> (new_rating_of tot ths = 0 \<longleftrightarrow> tot < t1))
   \<and> (\<forall>results m'. quick_rerate e dk n ths qw aw = (Inr results, m') \<longrightarrow>
         (\<exists>items. get_all_cached_scores (ManifestManager e dk n) = Inr items
            \<and> results = map (\<lambda>(filename, sc).
                   \<lparr>r_filename = filename,
                    r_old_rating = rating sc,
                    r_new_rating =
                      new_rating_of (fadd e (fmul e (quality sc) qw) (fmul e (aesthetic sc) aw))
                        ths,
                    r_total =
                      py_round e (fadd e (fmul e (quality sc) qw) (fmul e (aesthetic sc) aw)) 2,
                    r_changed =
                      (rating sc
                       \<noteq> new_rating_of
                           (fadd e (fmul e (quality sc) qw) (fmul e (aesthetic sc) aw)) ths)\<rparr>)
                 items))
   \<and> (\<forall>results m' kvs. quick_rerate e dk n ths qw aw = (Inr results, m')
         \<and> files (data (ManifestManager e dk n)) = Some (FilesDict kvs)
         \<and> distinct (map fst kvs) \<longrightarrow>
         (\<forall>fn info. map_of kvs fn = Some info \<longrightarrow>
            map_option f_rating (files_lookup (files (data m')) fn) =
              Some (Some (new_rating_of
                (fadd e (fmul e (get_real (f_quality info)) qw)
                   (fmul e (get_real (f_aesthetic info)) aw)) ths))))"
proof -
  have 1: "new_rating_of tot ths = Max (insert 0 {k \<in> {1, 2, 3, 4}. threshold ths k \<le> tot})"
    by (rule new_rating_of_Max)
  have 2: "new_rating_of tot ths \<in> {0, 1, 2, 3, 4}" by (rule new_rating_of_range)
  have 3: "new_rating_of tot ths \<noteq> 5" using 2 by auto
  have 4: "\<forall>k \<in> {1, 2, 3, 4}. tot = threshold ths k \<longrightarrow> k \<le> new_rating_of tot ths"
    using new_rating_of_lower [of ths tot] by auto
  have 5: "\<forall>t4 t3 t2 t1. ths = (t4, t3, t2, t1) \<and> t3 < t4 \<and> t2 < t3 \<and> t1 < t2 \<longrightarrow>
         (new_rating_of tot ths = 4 \<longleftrightarrow> t4 \<le> tot)
         \<and> (new_rating_of tot ths = 3 \<longleftrightarrow> t3 \<le> tot \<and> tot < t4)
         \<and> (new_rating_of tot ths = 2 \<longleftrightarrow> t2 \<le> tot \<and> tot < t3)
         \<and> (new_rating_of tot ths = 1 \<longleftrightarrow> t1 \<le> tot \<and> tot < t2)
         \<and> (new_rating_of tot ths = 0 \<longleftrightarrow> tot < t1)"
  proof (intro allI impI)
    fix t4 t3 t2 t1
    assume a: "ths = (t4, t3, t2, t1) \<and> t3 < t4 \<and> t2 < t3 \<and> t1 < t2"
    then have "t3 < t4" and "t2 < t3" and "t1 < t2" by simp_all
    from new_rating_of_descending [OF this, of tot] a
    show "(new_rating_of tot ths = 4 \<longleftrightarrow> t4 \<le> tot)
         \<and> (new_rating_of tot ths = 3 \<longleftrightarrow> t3 \<le> tot \<and> tot < t4)
         \<and> (new_rating_of tot ths = 2 \<longleftrightarrow> t2 \<le> tot \<and> tot < t3)
         \<and> (new_rating_of tot ths = 1 \<longleftrightarrow> t1 \<le> tot \<and> tot < t2)
         \<and> (new_rating_of tot ths = 0 \<longleftrightarrow> tot < t1)"
      by simp
  qed
  have 6: "\<forall>results m'. quick_rerate e dk n ths qw aw = (Inr results, m') \<longrightarrow>
         (\<exists>items. get_all_cached_scores (ManifestManager e dk n) = Inr items
            \<and> results = map (\<lambda>(filename, sc).
                   \<lparr>r_filename = filename,
                    r_old_rating = rating sc,
                    r_new_rating =
                      new_rating_of (fadd e (fmul e (quality sc) qw) (fmul e (aesthetic sc) aw))
                        ths,
                    r_total =
                      py_round e (fadd e (fmul e (quality sc) qw) (fmul e (aesthetic sc) aw)) 2,
                    r_changed =
                      (rating sc
                       \<noteq> new_rating_of
                           (fadd e (fmul e (quality sc) qw) (fmul e (aesthetic sc) aw)) ths)\<rparr>)
                 items)"
  proof (intro allI impI)
    fix results m'
    assume "quick_rerate e dk n ths qw aw = (Inr results, m')"
    then obtain items where i: "get_all_cached_scores (ManifestManager e dk n) = Inr items"
      and r: "results = map (rated_entry e ths qw aw) items"
      by (rule quick_rerate_Inr)
    have eq: "rated_entry e ths qw aw
      = (\<lambda>(filename, sc).
                   \<lparr>r_filename = filename,
                    r_old_rating = rating sc,
                    r_new_rating =
                      new_rating_of (fadd e (fmul e (quality sc) qw) (fmul e (aesthetic sc) aw))
                        ths,
                    r_total =
                      py_round e (fadd e (fmul e (quality sc) qw) (fmul e (aesthetic sc) aw)) 2,
                    r_changed =
                      (rating sc
                       \<noteq> new_rating_of
                           (fadd e (fmul e (quality sc) qw) (fmul e (aesthetic sc) aw)) ths)\<rparr>)"
      by (rule ext) (simp add: rated_entry_def weighted_total_def split_def)
    show "\<exists>items. get_all_cached_scores (ManifestManager e dk n) = Inr items
            \<and> results = map (\<lambda>(filename, sc).
                   \<lparr>r_filename = filename,
                    r_old_rating = rating sc,
                    r_new_rating =
                      new_rating_of (fadd e (fmul e (quality sc) qw) (fmul e (aesthetic sc) aw))
                        ths,
                    r_total =
                      py_round e (fadd e (fmul e (quality sc) qw) (fmul e (aesthetic sc) aw)) 2,
                    r_changed =
                      (rating sc
                       \<noteq> new_rating_of
                           (fadd e (fmul e (quality sc) qw) (fmul e (aesthetic sc) aw)) ths)\<rparr>)
                 items"
      unfolding eq [symmetric] using i r by blast
  qed
  have 7: "\<forall>results m' kvs. quick_rerate e dk n ths qw aw = (Inr results, m')
         \<and> files (data (ManifestManager e dk n)) = Some (FilesDict kvs)
         \<and> distinct (map fst kvs) \<longrightarrow>
         (\<forall>fn info. map_of kvs fn = Some info \<longrightarrow>
            map_option f_rating (files_lookup (files (data m')) fn) =
              Some (Some (new_rating_of
                (fadd e (fmul e (get_real (f_quality info)) qw)
                   (fmul e (get_real (f_aesthetic info)) aw)) ths)))"
  proof (intro allI impI)
    fix results m' kvs fn info
    assume a: "quick_rerate e dk n ths qw aw = (Inr results, m')
         \<and> files (data (ManifestManager e dk n)) = Some (FilesDict kvs)
         \<and> distinct (map fst kvs)"
      and k: "map_of kvs fn = Some info"
    from a have q: "quick_rerate e dk n ths qw aw = (Inr results, m')"
      and f: "files (data (ManifestManager e dk n)) = Some (FilesDict kvs)"
      and dist: "distinct (map fst kvs)"
      by simp_all
    from quick_rerate_stored [OF q f] obtain kvs' where
      a': "files (data m') = Some (FilesDict kvs')"
      and d: "distinct (map fst kvs) \<longrightarrow>
           (\<forall>k info. map_of kvs k = Some info \<longrightarrow>
              map_option f_rating (map_of kvs' k) =
                Some (Some (new_rating_of
                  (weighted_total e (get_real (f_quality info)) (get_real (f_aesthetic info)) qw aw) ths)))"
      by (elim exE conjE)
    from d [rule_format, OF dist k] a'
    show "map_option f_rating (files_lookup (files (data m')) fn) =
              Some (Some (new_rating_of
                (fadd e (fmul e (get_real (f_quality info)) qw)
                   (fmul e (get_real (f_aesthetic info)) aw)) ths))"
      by (simp add: weighted_total_def)
  qed
  show ?thesis by (intro conjI) (fact 1 2 3 4 5 6 7)+
qed

lemma example_manager_current:
  "ManifestManager example_env (Some ''current'') 0
     = \<lparr>data = example_data [(''a.jpg'', example_record ''#xx'')],
        disk = Some ''current'', ticks = 0\<rparr>"
  by (rule ManifestManager_current [of _ "''current''"])
     (simp_all add: example_env_def example_data_def)

lemma fst_example_rerate:
  "fst example_rerate
     = Inr [\<lparr>r_filename = ''a.jpg'', r_old_rating = 3, r_new_rating = 3, r_total = 155 / 2,
             r_changed = False\<rparr>]"
  unfolding example_rerate_def quick_rerate_def example_manager_current
  by (simp add: is_completed_def get_status_def example_data_def example_record_def
        get_all_cached_scores_def cached_scores_def get_real_def get_int_def Let_def
        update_file_rating_def now_def new_rating_of_def example_env_def decimal_round_def)

lemma example_rerate_pair:
  "quick_rerate example_env (Some ''current'') 0 (78, 72, 66, 58) (3 / 4) (1 / 4)
     = (Inr [\<lparr>r_filename = ''a.jpg'', r_old_rating = 3, r_new_rating = 3, r_total = 155 / 2,
              r_changed = False\<rparr>], snd example_rerate)"
  using fst_example_rerate by (simp add: example_rerate_def prod_eq_iff)

theorem rating_policy_witness:
  "(72::real) < 78 \<and> (66::real) < 72 \<and> (58::real) < 66
   \<and> new_rating_of (155 / 2) (78, 72, 66, 58) = 3
   \<and> new_rating_of 78 (78, 72, 66, 58) = 4
   \<and> new_rating_of 57 (78, 72, 66, 58) = 0
   \<and> (80::real) < 85 \<and> (75::real) < 80 \<and> (70::real) < 75
   \<and> new_rating_of (155 / 2) (85, 80, 75, 70) = 2
   \<and> fadd example_env (fmul example_env 80 (3 / 4)) (fmul example_env 70 (1 / 4)) = 155 / 2
   \<and> quick_rerate example_env (Some ''current'') 0 (78, 72, 66, 58) (3 / 4) (1 / 4)
       = (Inr [\<lparr>r_filename = ''a.jpg'', r_old_rating = 3, r_new_rating = 3,
                r_total = 155 / 2, r_changed = False\<rparr>], snd example_rerate)
   \<and> map_option f_rating (files_lookup (files (data (snd example_rerate))) ''a.jpg'')
       = Some (Some 3)"
proof -
  let ?kvs = "[(''a.jpg'', example_record ''#xx'')]"
  note t1 = rating_policy [of "155 / 2" "(78, 72, 66, 58)" example_env "Some ''current''" 0
                              "3 / 4" "1 / 4"]
  note t2 = rating_policy [of "155 / 2" "(85, 80, 75, 70)" example_env "Some ''current''" 0
                              "3 / 4" "1 / 4"]
  note t3 = rating_policy [of 78 "(78, 72, 66, 58)" example_env "Some ''current''" 0
                              "3 / 4" "1 / 4"]
  note t4 = rating_policy [of 57 "(78, 72, 66, 58)" example_env "Some ''current''" 0
                              "3 / 4" "1 / 4"]
  note d1 = t1 [THEN conjunct2, THEN conjunct2, THEN conjunct2, THEN conjunct2,
                THEN conjunct1, rule_format, of 78 72 66 58]
  note d2 = t2 [THEN conjunct2, THEN conjunct2, THEN conjunct2, THEN conjunct2,
                THEN conjunct1, rule_format, of 85 80 75 70]
  note d3 = t3 [THEN conjunct2, THEN conjunct2, THEN conjunct2, THEN conjunct2,
                THEN conjunct1, rule_format, of 78 72 66 58]
  note d4 = t4 [THEN conjunct2, THEN conjunct2, THEN conjunct2, THEN conjunct2,
                THEN conjunct1, rule_format, of 78 72 66 58]
  note s1 = t1 [THEN conjunct2, THEN conjunct2, THEN conjunct2, THEN conjunct2,
                THEN conjunct2, THEN conjunct2, rule_format,
                of _ "snd example_rerate" ?kvs "''a.jpg''" "example_record ''#xx''"]
  have r3: "new_rating_of (155 / 2) (78, 72, 66, 58) = 3" using d1 by simp
  have r2: "new_rating_of (155 / 2) (85, 80, 75, 70) = 2" using d2 by simp
  have r4: "new_rating_of 78 (78, 72, 66, 58) = 4" using d3 by simp
  have r0: "new_rating_of 57 (78, 72, 66, 58) = 0" using d4 by simp
  have f: "files (data (ManifestManager example_env (Some ''current'') 0))
             = Some (FilesDict ?kvs)"
    by (simp add: example_manager_current example_data_def)
  have w: "fadd example_env (fmul example_env 80 (3 / 4)) (fmul example_env 70 (1 / 4))
             = 155 / 2"
    by (simp add: example_env_def)
  have st: "map_option f_rating (files_lookup (files (data (snd example_rerate))) ''a.jpg'')
              = Some (Some 3)"
    using s1 [OF conjI [OF example_rerate_pair conjI [OF f]]]
    by (simp add: example_record_def get_real_def w r3)
  from r3 r2 r4 r0 w st example_rerate_pair show ?thesis by simp
qed

text \<open>
  C7, as amended. The stored total is a cached copy of what the caller of the upsert
  passed as total, rounded to two decimals, next to the rounded quality and aesthetic;
  the upsert does not touch the configuration. A successful quick re-rate leaves hash,
  original path, quality, aesthetic and total of every record as they were, stores the
  new thresholds and weights in the configuration, and reports the total recomputed
  under the new weights (rounded to two decimals) in its changelist only. Products, sums
  and roundings are those of the floats.
\<close>

theorem total_is_cached:
  "(\<forall>m1. add_file_result e fn fp q a t r m = Inr m1 \<longrightarrow>
       map_option frozen_fields (files_lookup (files (data m1)) fn)
         = Some (Some (calculate_file_hash (md5 e) (read_file e) fp), Some fp,
                 Some (py_round e q 2), Some (py_round e a 2), Some (py_round e t 2))
       \<and> config (data m1) = config (data m))
   \<and> (\<forall>results m'. quick_rerate e dk n ths qw aw = (Inr results, m') \<longrightarrow>
        (\<forall>name. map_option frozen_fields (files_lookup (files (data m')) name)
                 = map_option frozen_fields
                     (files_lookup (files (data (ManifestManager e dk n))) name))
        \<and> config (data m')
            = Some \<lparr>thresholds = [fst ths, fst (snd ths), fst (snd (snd ths)),
                                  snd (snd (snd ths))],
                    quality_weight = qw, aesthetic_weight = aw\<rparr>
        \<and> (\<exists>items. get_all_cached_scores (ManifestManager e dk n) = Inr items
              \<and> map r_total results
                  = map (\<lambda>(name, sc).
                           py_round e
                             (fadd e (fmul e (quality sc) qw) (fmul e (aesthetic sc) aw)) 2)
                      items))"
proof -
  let ?M = "ManifestManager e dk n"
  have 1: "\<forall>m1. add_file_result e fn fp q a t r m = Inr m1 \<longrightarrow>
       map_option frozen_fields (files_lookup (files (data m1)) fn)
         = Some (Some (calculate_file_hash (md5 e) (read_file e) fp), Some fp,
                 Some (py_round e q 2), Some (py_round e a 2), Some (py_round e t 2))
       \<and> config (data m1) = config (data m)"
  proof (intro allI impI)
    fix m1
    assume a: "add_file_result e fn fp q a t r m = Inr m1"
    then obtain kvs where kvs: "files (data m) = Some (FilesDict kvs)"
      by (rule add_file_result_Inr_dict)
    from a show "map_option frozen_fields (files_lookup (files (data m1)) fn)
         = Some (Some (calculate_file_hash (md5 e) (read_file e) fp), Some fp,
                 Some (py_round e q 2), Some (py_round e a 2), Some (py_round e t 2))
       \<and> config (data m1) = config (data m)"
      unfolding add_file_result_dict [OF kvs]
      by (auto simp: update_conv' frozen_fields_def)
  qed
  have 2: "\<forall>results m'. quick_rerate e dk n ths qw aw = (Inr results, m') \<longrightarrow>
        (\<forall>name. map_option frozen_fields (files_lookup (files (data m')) name)
                 = map_option frozen_fields (files_lookup (files (data ?M)) name))
        \<and> config (data m')
            = Some \<lparr>thresholds = [fst ths, fst (snd ths), fst (snd (snd ths)),
                                  snd (snd (snd ths))],
                    quality_weight = qw, aesthetic_weight = aw\<rparr>
        \<and> (\<exists>items. get_all_cached_scores ?M = Inr items
              \<and> map r_total results
                  = map (\<lambda>(name, sc).
                           py_round e
                             (fadd e (fmul e (quality sc) qw) (fmul e (aesthetic sc) aw)) 2)
                      items)"
  proof (intro allI impI)
    fix results m'
    assume q: "quick_rerate e dk n ths qw aw = (Inr results, m')"
    then obtain items where items: "get_all_cached_scores ?M = Inr items"
      and res: "results = map (rated_entry e ths qw aw) items"
      and m': "m' = save e (set_config ths qw aw (fst (rerate_loop e ths qw aw items ?M [])))"
      by (rule quick_rerate_Inr)
    have fr: "\<forall>name. map_option frozen_fields (files_lookup (files (data m')) name)
                 = map_option frozen_fields (files_lookup (files (data ?M)) name)"
    proof (cases "files (data ?M)")
      case None
      with items have "items = []" by (simp add: get_all_cached_scores_def)
      with None show ?thesis by (simp add: m' data_save files_set_config)
    next
      case (Some ff)
      show ?thesis
      proof (cases ff)
        case (FilesDict kvs)
        with Some have f: "files (data ?M) = Some (FilesDict kvs)" by simp
        from quick_rerate_stored [OF q f] obtain kvs' where
          "files (data m') = Some (FilesDict kvs')"
          and "\<forall>k. map_option frozen_fields (map_of kvs' k)
                = map_option frozen_fields (map_of kvs k)"
          by (elim exE conjE)
        with f show ?thesis by simp
      next
        case (FilesList l)
        with Some files_ManifestManager_not_list [of e dk n l] show ?thesis by simp
      qed
    qed
    have cf: "config (data m')
            = Some \<lparr>thresholds = [fst ths, fst (snd ths), fst (snd (snd ths)),
                                  snd (snd (snd ths))],
                    quality_weight = qw, aesthetic_weight = aw\<rparr>"
      by (cases ths) (simp add: m' data_save set_config_def)
    have tt: "map r_total results
                = map (\<lambda>(name, sc).
                         py_round e
                           (fadd e (fmul e (quality sc) qw) (fmul e (aesthetic sc) aw)) 2)
                    items"
      by (simp add: res rated_entry_def weighted_total_def split_def)
    from items tt have ex: "\<exists>items. get_all_cached_scores ?M = Inr items
              \<and> map r_total results
                  = map (\<lambda>(name, sc).
                           py_round e
                             (fadd e (fmul e (quality sc) qw) (fmul e (aesthetic sc) aw)) 2)
                      items"
      by blast
    from fr cf ex show "(\<forall>name. map_option frozen_fields (files_lookup (files (data m')) name)
                 = map_option frozen_fields (files_lookup (files (data ?M)) name))
        \<and> config (data m')
            = Some \<lparr>thresholds = [fst ths, fst (snd ths), fst (snd (snd ths)),
                                  snd (snd (snd ths))],
                    quality_weight = qw, aesthetic_weight = aw\<rparr>
        \<and> (\<exists>items. get_all_cached_scores ?M = Inr items
              \<and> map r_total results
                  = map (\<lambda>(name, sc).
                           py_round e
                             (fadd e (fmul e (quality sc) qw) (fmul e (aesthetic sc) aw)) 2)
                      items)"
      by (intro conjI)
  qed
  from 1 2 show ?thesis by (intro conjI)
qed

lemma example_weighted_upsert_Inr:
  "add_file_result example_env ''n.jpg'' ''/d/b.jpg'' (1 / 2) 0 (129 / 512) 0
     example_weighted_manager = Inr (projr example_weighted_upsert)"
  unfolding example_weighted_upsert_def
  by (simp add: example_weighted_manager_def example_data_def Let_def add_file_result_def
        now_def)

theorem total_is_cached_witness:
  "add_file_result example_env ''n.jpg'' ''/d/b.jpg'' (1 / 2) 0 (129 / 512) 0
     example_weighted_manager = Inr (projr example_weighted_upsert)
   \<and> map_option f_total
        (files_lookup (files (data (projr example_weighted_upsert))) ''n.jpg'')
       = Some (Some (1 / 4))
   \<and> quick_rerate example_env (Some ''current'') 0 (78, 72, 66, 58) (3 / 4) (1 / 4)
       = (Inr [\<lparr>r_filename = ''a.jpg'', r_old_rating = 3, r_new_rating = 3,
                r_total = 155 / 2, r_changed = False\<rparr>], snd example_rerate)
   \<and> map_option f_total (files_lookup (files (data (snd example_rerate))) ''a.jpg'')
       = Some (Some 75)"
proof -
  note u = total_is_cached
    [of example_env "''n.jpg''" "''/d/b.jpg''" "1 / 2" 0 "129 / 512" 0
        example_weighted_manager "Some ''current''" 0 "(78, 72, 66, 58)"
        "3 / 4" "1 / 4"]
  note u1 = u [THEN conjunct1, rule_format, OF example_weighted_upsert_Inr, THEN conjunct1]
  note u2 = u [THEN conjunct2, rule_format, OF example_rerate_pair, THEN conjunct1,
               rule_format, of "''a.jpg''"]
  have r: "py_round example_env (129 / 512) 2 = 1 / 4"
    by (simp add: example_env_def decimal_round_def)
  from u1 have a: "map_option f_total
        (files_lookup (files (data (projr example_weighted_upsert))) ''n.jpg'')
       = Some (Some (1 / 4))"
    by (cases "files_lookup (files (data (projr example_weighted_upsert))) ''n.jpg''")
       (simp_all add: frozen_fields_def r)
  from u2 have b: "map_option f_total
        (files_lookup (files (data (snd example_rerate))) ''a.jpg'') = Some (Some 75)"
    by (cases "files_lookup (files (data (snd example_rerate))) ''a.jpg''")
       (simp_all add: frozen_fields_def example_manager_current example_data_def
          example_record_def)
  from a b example_weighted_upsert_Inr example_rerate_pair show ?thesis by simp
qed

text \<open>
  C7 as stated fails in both places. With the weights \<open>129/256\<close> and \<open>127/256\<close>, an
  upsert of quality \<open>0.5\<close> and aesthetic \<open>0\<close> that is given the exact weighted total
  \<open>129/512 = 0.251953125\<close> stores the total \<open>0.25\<close>, which the stored quality and the
  weights do not reproduce. A quick re-rate of a record with quality 80, aesthetic 70
  and total 75 (weights one half each) under the weights \<open>0.75\<close> and \<open>0.25\<close> stores the
  new weights and leaves the total at 75, while the recomputation gives 77.5. (All these
  numbers are floats, and the products and sums are exact on them.)
\<close>

theorem total_not_rederivable_counterexample:
  "example_weighted_upsert = Inr (projr example_weighted_upsert)
   \<and> (129 / 512 :: real) = 1 / 2 * (129 / 256) + 0 * (127 / 256)
   \<and> map_option f_quality
        (files_lookup (files (data (projr example_weighted_upsert))) ''n.jpg'')
       = Some (Some (1 / 2))
   \<and> map_option f_total
        (files_lookup (files (data (projr example_weighted_upsert))) ''n.jpg'')
       = Some (Some (1 / 4))
   \<and> recomputed_total example_env (config (data (projr example_weighted_upsert)))
        (files_lookup (files (data (projr example_weighted_upsert))) ''n.jpg'')
       = Some (129 / 512)
   \<and> (1 / 4 :: real) \<noteq> 129 / 512
   \<and> isl (fst example_rerate) = False
   \<and> map_option f_total (files_lookup (files (data (snd example_rerate))) ''a.jpg'')
       = Some (Some 75)
   \<and> recomputed_total example_env (config (data (snd example_rerate)))
        (files_lookup (files (data (snd example_rerate))) ''a.jpg'')
       = Some (155 / 2)
   \<and> (75 :: real) \<noteq> 155 / 2"
proof -
  have a: "example_weighted_upsert = Inr (projr example_weighted_upsert)
   \<and> map_option f_quality
        (files_lookup (files (data (projr example_weighted_upsert))) ''n.jpg'')
       = Some (Some (1 / 2))
   \<and> map_option f_total
        (files_lookup (files (data (projr example_weighted_upsert))) ''n.jpg'')
       = Some (Some (1 / 4))
   \<and> recomputed_total example_env (config (data (projr example_weighted_upsert)))
        (files_lookup (files (data (projr example_weighted_upsert))) ''n.jpg'')
       = Some (129 / 512)"
    unfolding example_weighted_upsert_def
    by (simp add: example_weighted_manager_def example_data_def now_def Let_def
          add_file_result_def decimal_round_def recomputed_total_def weighted_total_def
          get_real_def example_env_def)
  have b: "map_option f_total (files_lookup (files (data (snd example_rerate))) ''a.jpg'')
       = Some (Some 75)
   \<and> recomputed_total example_env (config (data (snd example_rerate)))
        (files_lookup (files (data (snd example_rerate))) ''a.jpg'')
       = Some (155 / 2)"
    unfolding example_rerate_def quick_rerate_def example_manager_current
    by (simp add: is_completed_def get_status_def example_data_def example_record_def
          get_all_cached_scores_def cached_scores_def get_real_def get_int_def Let_def
          update_file_rating_def now_def new_rating_of_def decimal_round_def set_config_def
          data_save recomputed_total_def weighted_total_def example_env_def)
  from a b fst_example_rerate show ?thesis by simp
qed

section \<open>Properties of \<open>restore_files\<close>\<close>






















end
